theory Spec2Isabelle
  imports Main "HOL-Library.Word"
begin

section \<open>The command-line drivers of the normalizer and of the trainer\<close>

text \<open>
  This development embeds \<^verbatim>\<open>main\<close> of \<^verbatim>\<open>src/spm_normalize_main.cc\<close> and
  \<^verbatim>\<open>main\<close> of \<^verbatim>\<open>src/spm_train_main.cc\<close>. Both programs are sequential
  code over collaborators whose implementation lives in other translation units
  (the model loader, the rule compiler, the normalizer itself, the file streams, the
  trainer). Every collaborator is a parameter of the embedding; every
  \<^verbatim>\<open>CHECK\<close>, \<^verbatim>\<open>CHECK_OK\<close> and \<^verbatim>\<open>LOG(FATAL)\<close> of the drivers is a branch
  that ends the run with a value of type \<open>fatal\<close>.
\<close>

subsection \<open>Data\<close>

text \<open>
  Modelled from the spec: the message type \<^verbatim>\<open>NormalizerSpec\<close> is declared in the generated
  header \<^verbatim>\<open>sentencepiece_model.pb.h\<close>, which is not among the sources. The record has the
  fields of section 3 of the specification (the three behaviour flags and the compiled map)
  and the two fields the drivers write besides them (\<^verbatim>\<open>name\<close> and
  \<^verbatim>\<open>normalization_rule_tsv\<close>). A field is \<open>None\<close> until a \<^verbatim>\<open>set_\<close> call stores a
  value in it, so a default-constructed message has no field set.
\<close>

record NormalizerSpec =
  name :: "string option"
  precompiled_charsmap :: "string option"
  add_dummy_prefix :: "bool option"
  remove_extra_whitespaces :: "bool option"
  escape_whitespaces :: "bool option"
  normalization_rule_tsv :: "string option"

text \<open>\<^verbatim>\<open>NormalizerSpec spec;\<close> : the default-constructed message.\<close>

definition NormalizerSpec_default :: NormalizerSpec where
  "NormalizerSpec_default =
     \<lparr>name = None, precompiled_charsmap = None, add_dummy_prefix = None,
      remove_extra_whitespaces = None, escape_whitespaces = None,
      normalization_rule_tsv = None\<rparr>"

text \<open>
  The getter \<^verbatim>\<open>spec.precompiled_charsmap()\<close>: the stored bytes, or the empty string when
  the field was never set.
\<close>

definition precompiled_charsmap_get :: "NormalizerSpec \<Rightarrow> string" where
  "precompiled_charsmap_get s =
     (case precompiled_charsmap s of None \<Rightarrow> '''' | Some b \<Rightarrow> b)"

text \<open>
  \<^verbatim>\<open>Builder::CharsMap\<close> maps a sequence of code points to a sequence of code points; the
  drivers only pass it from \<^verbatim>\<open>DecompileCharsMap\<close> to \<^verbatim>\<open>SaveCharsMap\<close>.
\<close>

type_synonym CharsMap = "(nat list \<times> nat list) list"

text \<open>
  How a run can die: a \<^verbatim>\<open>CHECK\<close> or \<^verbatim>\<open>CHECK_OK\<close> that fails (with the text of the
  failed condition or of the status), or a \<^verbatim>\<open>LOG(FATAL)\<close> (with the logged message).
\<close>

datatype fatal = CheckFailed string | LogFatal string

subsection \<open>The normalize driver: flags\<close>

text \<open>
  The eight \<^verbatim>\<open>STPC_FLAG\<close> declarations of \<^verbatim>\<open>spm_normalize_main.cc\<close> (lines 26 to 39).
  A value of the record is the state of the flags after
  \<^verbatim>\<open>ParseCommandLineFlags\<close> has returned.
\<close>

record normalize_flags =
  FLAGS_model :: string
  FLAGS_use_internal_normalization :: bool
  FLAGS_normalization_rule_name :: string
  FLAGS_normalization_rule_tsv :: string
  FLAGS_remove_extra_whitespaces :: bool
  FLAGS_decompile :: bool
  FLAGS_input :: string
  FLAGS_output :: string

text \<open>The default values written in the declarations: what a flag holds when the
  command line does not mention it.\<close>

definition normalize_flags_default :: normalize_flags where
  "normalize_flags_default =
     \<lparr>FLAGS_model = '''',
      FLAGS_use_internal_normalization = False,
      FLAGS_normalization_rule_name = '''',
      FLAGS_normalization_rule_tsv = '''',
      FLAGS_remove_extra_whitespaces = True,
      FLAGS_decompile = False,
      FLAGS_input = '''',
      FLAGS_output = ''''\<rparr>"

subsection \<open>The normalize driver: collaborators and observable behaviour\<close>

text \<open>
  The functions the driver calls and whose code is elsewhere. A status that is not OK is
  \<open>Inl\<close> (or \<open>Some\<close>) of its message.
  \<^item> \<open>Load f\<close>: \<^verbatim>\<open>sp.Load(f)\<close> followed by \<^verbatim>\<open>sp.model_proto().normalizer_spec()\<close>;
  \<^item> \<open>PopulateNormalizerSpec s\<close>: the in-place update of \<^verbatim>\<open>SentencePieceTrainer\<close>,
    returning the updated message;
  \<^item> \<open>DecompileCharsMap b\<close>, \<open>SaveCharsMap f m\<close>: of \<^verbatim>\<open>normalizer::Builder\<close>;
  \<^item> \<open>Normalize s l\<close>: \<^verbatim>\<open>Normalizer(s).Normalize(l)\<close>, a const method of a const object;
  \<^item> \<open>NewWritableFile f\<close>: the status of the stream opened for writing;
  \<^item> \<open>NewReadableFile f\<close>: the status of the stream opened for reading and, when it is
    OK, the lines that \<^verbatim>\<open>ReadLine\<close> yields until it returns false (a finite list: the
    stream ends).
\<close>

record collaborators =
  Load :: "string \<Rightarrow> string + NormalizerSpec"
  PopulateNormalizerSpec :: "NormalizerSpec \<Rightarrow> string + NormalizerSpec"
  DecompileCharsMap :: "string \<Rightarrow> string + CharsMap"
  SaveCharsMap :: "string \<Rightarrow> CharsMap \<Rightarrow> string option"
  Normalize :: "NormalizerSpec \<Rightarrow> string \<Rightarrow> string"
  NewWritableFile :: "string \<Rightarrow> string option"
  NewReadableFile :: "string \<Rightarrow> string + string list"

text \<open>
  What a run of the driver does, as seen from outside:
  \<^item> \<open>engine\<close>: the message the \<^verbatim>\<open>Normalizer\<close> was constructed from (line 94);
  \<^item> \<open>saved\<close>: the arguments of the \<^verbatim>\<open>SaveCharsMap\<close> call that returned OK (line 92);
  \<^item> \<open>opened\<close>: the names passed to \<^verbatim>\<open>NewReadableFile\<close>, in order (line 105);
  \<^item> \<open>lines_read\<close>: the lines \<^verbatim>\<open>ReadLine\<close> stored in \<^verbatim>\<open>line\<close>, in order (line 107);
  \<^item> \<open>written\<close>: the lines passed to \<^verbatim>\<open>output->WriteLine\<close>, in order (line 108);
  \<^item> \<open>exit\<close>: \<open>None\<close> for \<^verbatim>\<open>return 0\<close>, the cause of death otherwise.
\<close>

record run =
  engine :: "NormalizerSpec option"
  saved :: "(string \<times> CharsMap) option"
  opened :: "string list"
  lines_read :: "string list"
  written :: "string list"
  exit :: "fatal option"

definition run_init :: run where
  "run_init = \<lparr>engine = None, saved = None, opened = [], lines_read = [], written = [],
                exit = None\<rparr>"

subsection \<open>The normalize driver: \<^verbatim>\<open>main\<close>\<close>

text \<open>
  Lines 51 to 59. \<open>argv\<close> is the argument vector as \<^verbatim>\<open>ParseCommandLineFlags\<close> leaves it
  (program name first, then the arguments that are not flags); the loop
  \<^verbatim>\<open>for (int i = 1; i < argc; ++i)\<close> copies all of it but the first element.
\<close>

definition rest_args_of :: "normalize_flags \<Rightarrow> string list \<Rightarrow> string list" where
  "rest_args_of F argv =
     (if FLAGS_input F = '''' then drop 1 argv else [FLAGS_input F])"

text \<open>Lines 61 to 78: the chain that fills \<^verbatim>\<open>spec\<close> from the first flag that is not empty.\<close>

definition resolve_spec :: "collaborators \<Rightarrow> normalize_flags \<Rightarrow> fatal + NormalizerSpec" where
  "resolve_spec E F =
     (if FLAGS_model F \<noteq> '''' then
        (case Load E (FLAGS_model F) of
           Inl msg \<Rightarrow> Inl (CheckFailed msg)
         | Inr s \<Rightarrow> Inr s)
      else if FLAGS_normalization_rule_tsv F \<noteq> '''' then
        (case PopulateNormalizerSpec E
                (NormalizerSpec_default
                   \<lparr>normalization_rule_tsv := Some (FLAGS_normalization_rule_tsv F)\<rparr>) of
           Inl msg \<Rightarrow> Inl (CheckFailed msg)
         | Inr s \<Rightarrow> Inr s)
      else if FLAGS_normalization_rule_name F \<noteq> '''' then
        (case PopulateNormalizerSpec E
                (NormalizerSpec_default
                   \<lparr>name := Some (FLAGS_normalization_rule_name F)\<rparr>) of
           Inl msg \<Rightarrow> Inl (CheckFailed msg)
         | Inr s \<Rightarrow> Inr s)
      else
        Inl (LogFatal
          ''Sets --model, normalization_rule_tsv, or normalization_rule_name flag.''))"

text \<open>Lines 81 to 86: the three setters run unless \<^verbatim>\<open>--use_internal_normalization\<close> is on.\<close>

definition override_spec :: "normalize_flags \<Rightarrow> NormalizerSpec \<Rightarrow> NormalizerSpec" where
  "override_spec F s =
     (if \<not> FLAGS_use_internal_normalization F then
        s\<lparr>add_dummy_prefix := Some False,
          escape_whitespaces := Some False,
          remove_extra_whitespaces := Some (FLAGS_remove_extra_whitespaces F)\<rparr>
      else s)"

text \<open>Lines 61 to 86 together: the value of \<^verbatim>\<open>spec\<close> when line 88 is reached.\<close>

definition final_spec :: "collaborators \<Rightarrow> normalize_flags \<Rightarrow> fatal + NormalizerSpec" where
  "final_spec E F =
     (case resolve_spec E F of
        Inl e \<Rightarrow> Inl e
      | Inr s \<Rightarrow> Inr (override_spec F s))"

text \<open>Lines 107 to 109: the inner loop over the lines of one stream.\<close>

fun normalize_lines :: "collaborators \<Rightarrow> NormalizerSpec \<Rightarrow> string list \<Rightarrow> run \<Rightarrow> run" where
  "normalize_lines E s [] r = r"
| "normalize_lines E s (line # rest) r =
     normalize_lines E s rest
       (r\<lparr>lines_read := lines_read r @ [line],
          written := written r @ [Normalize E s line]\<rparr>)"

text \<open>Lines 104 to 110: the outer loop over the file names; a stream that does not open
  ends the run.\<close>

fun normalize_files :: "collaborators \<Rightarrow> NormalizerSpec \<Rightarrow> string list \<Rightarrow> run \<Rightarrow> run" where
  "normalize_files E s [] r = r"
| "normalize_files E s (filename # rest) r =
     (case NewReadableFile E filename of
        Inl msg \<Rightarrow> r\<lparr>opened := opened r @ [filename], exit := Some (CheckFailed msg)\<rparr>
      | Inr ls \<Rightarrow>
          normalize_files E s rest
            (normalize_lines E s ls (r\<lparr>opened := opened r @ [filename]\<rparr>)))"

text \<open>Line 99 to 101: the empty name stands for the standard input.\<close>

definition input_files :: "string list \<Rightarrow> string list" where
  "input_files rest_args = (if rest_args = [] then rest_args @ [''''] else rest_args)"

text \<open>The whole of \<^verbatim>\<open>main\<close>, lines 48 to 114.\<close>

definition main :: "collaborators \<Rightarrow> normalize_flags \<Rightarrow> string list \<Rightarrow> run" where
  "main E F argv =
     (let rest_args = rest_args_of F argv in
      case final_spec E F of
        Inl e \<Rightarrow> run_init\<lparr>exit := Some e\<rparr>
      | Inr spec \<Rightarrow>
          if FLAGS_decompile F then
            (case DecompileCharsMap E (precompiled_charsmap_get spec) of
               Inl msg \<Rightarrow> run_init\<lparr>exit := Some (CheckFailed msg)\<rparr>
             | Inr chars_map \<Rightarrow>
                 (case SaveCharsMap E (FLAGS_output F) chars_map of
                    Some msg \<Rightarrow> run_init\<lparr>exit := Some (CheckFailed msg)\<rparr>
                  | None \<Rightarrow> run_init\<lparr>saved := Some (FLAGS_output F, chars_map)\<rparr>))
          else
            (case NewWritableFile E (FLAGS_output F) of
               Some msg \<Rightarrow> run_init\<lparr>engine := Some spec, exit := Some (CheckFailed msg)\<rparr>
             | None \<Rightarrow>
                 normalize_files E spec (input_files rest_args)
                   (run_init\<lparr>engine := Some spec\<rparr>)))"


subsection \<open>The training driver\<close>

text \<open>
  The flags of \<^verbatim>\<open>spm_train_main.cc\<close> (lines 36 to 161). The flags that \<^verbatim>\<open>main\<close> tests,
  splits, reads as a file name or copies into a \<^verbatim>\<open>NormalizerSpec\<close> are fields of their
  own; the flags that \<^verbatim>\<open>SetTrainerSpecFromFlag\<close> copies unchanged into the field of the
  same name of the \<^verbatim>\<open>TrainerSpec\<close> (from \<^verbatim>\<open>input_format\<close> to
  \<^verbatim>\<open>differential_privacy_clipping_threshold\<close>, \<^verbatim>\<open>required_chars\<close> apart) travel
  together as \<open>FLAGS_copied\<close>. Four names are also names of flags of the normalize driver
  and carry the suffix \<open>_train\<close> here.
\<close>

record 'c train_flags =
  FLAGS_input_train :: string
  FLAGS_model_prefix :: string
  FLAGS_model_type :: string
  FLAGS_random_seed :: "32 word"
  FLAGS_copied :: 'c
  FLAGS_required_chars :: string
  FLAGS_required_chars_file :: string
  FLAGS_accept_language :: string
  FLAGS_control_symbols :: string
  FLAGS_control_symbols_file :: string
  FLAGS_user_defined_symbols :: string
  FLAGS_user_defined_symbols_file :: string
  FLAGS_normalization_rule_name_train :: string
  FLAGS_normalization_rule_tsv_train :: string
  FLAGS_denormalization_rule_tsv :: string
  FLAGS_add_dummy_prefix :: bool
  FLAGS_remove_extra_whitespaces_train :: bool

text \<open>
  Modelled from the spec: the message type \<^verbatim>\<open>TrainerSpec\<close> is declared in the generated
  header \<^verbatim>\<open>sentencepiece_model.pb.h\<close>, which is not among the sources; the specification
  names training as an external collaborator and says nothing of the message, so the record
  has exactly the fields that \<^verbatim>\<open>main\<close> writes: the repeated fields as lists (\<^verbatim>\<open>add_\<close>
  appends), the others \<open>None\<close> until set.
\<close>

record 'c TrainerSpec =
  input :: "string list"
  copied :: "'c option"
  required_chars :: "string option"
  accept_language :: "string list"
  control_symbols :: "string list"
  user_defined_symbols :: "string list"

definition TrainerSpec_default :: "'c TrainerSpec" where
  "TrainerSpec_default =
     \<lparr>input = [], copied = None, required_chars = None, accept_language = [],
      control_symbols = [], user_defined_symbols = []\<rparr>"

text \<open>
  The collaborators of the training driver: \<^verbatim>\<open>util::StrSplitAsCSV\<close>, the readable stream
  (status and lines, as above), and the two entry points of \<^verbatim>\<open>SentencePieceTrainer\<close>.
\<close>

record 'c train_collaborators =
  StrSplitAsCSV :: "string \<Rightarrow> string list"
  NewReadableFile_train :: "string \<Rightarrow> string + string list"
  PopulateModelTypeFromString :: "string \<Rightarrow> 'c TrainerSpec \<Rightarrow> string + 'c TrainerSpec"
  Train :: "'c TrainerSpec \<Rightarrow> NormalizerSpec \<Rightarrow> NormalizerSpec \<Rightarrow> string option"

text \<open>
  What a run of the training driver does: the seed given to
  \<^verbatim>\<open>SetRandomGeneratorSeed\<close>, the three arguments of the call of \<^verbatim>\<open>Train\<close>, and how
  the run ends.
\<close>

record 'c train_run =
  seed :: "32 word option"
  train_args :: "('c TrainerSpec \<times> NormalizerSpec \<times> NormalizerSpec) option"
  train_exit :: "fatal option"

definition train_run_init :: "'c train_run" where
  "train_run_init = \<lparr>seed = None, train_args = None, train_exit = None\<rparr>"

text \<open>Lines 178 to 185, the lambda \<^verbatim>\<open>load_lines\<close>.\<close>

definition load_lines :: "'c train_collaborators \<Rightarrow> string \<Rightarrow> fatal + string list" where
  "load_lines E filename =
     (case NewReadableFile_train E filename of
        Inl msg \<Rightarrow> Inl (CheckFailed msg)
      | Inr lines \<Rightarrow> Inr lines)"

text \<open>The macro \<^verbatim>\<open>SetRepeatedTrainerSpecFromFlag\<close>, on the current value of the field.\<close>

definition SetRepeatedTrainerSpecFromFlag ::
  "'c train_collaborators \<Rightarrow> string \<Rightarrow> string list \<Rightarrow> string list" where
  "SetRepeatedTrainerSpecFromFlag E flag field =
     (if flag \<noteq> '''' then field @ StrSplitAsCSV E flag else field)"

text \<open>The macro \<^verbatim>\<open>SetRepeatedTrainerSpecFromFile\<close>, on the current value of the field.\<close>

definition SetRepeatedTrainerSpecFromFile ::
  "'c train_collaborators \<Rightarrow> string \<Rightarrow> string list \<Rightarrow> fatal + string list" where
  "SetRepeatedTrainerSpecFromFile E file_flag field =
     (if file_flag \<noteq> '''' then
        (case load_lines E file_flag of
           Inl e \<Rightarrow> Inl e
         | Inr lines \<Rightarrow> Inr (field @ lines))
      else Inr field)"

text \<open>Lines 215 to 262: the trainer spec filled from the flags and the three files.\<close>

definition trainer_spec_of ::
  "'c train_collaborators \<Rightarrow> 'c train_flags \<Rightarrow> fatal + 'c TrainerSpec" where
  "trainer_spec_of E F =
     (let t1 = TrainerSpec_default
                 \<lparr>input := SetRepeatedTrainerSpecFromFlag E (FLAGS_input_train F) [],
                  copied := Some (FLAGS_copied F),
                  required_chars := Some (FLAGS_required_chars F)\<rparr> in
      case (if FLAGS_required_chars_file F \<noteq> '''' then
              (case load_lines E (FLAGS_required_chars_file F) of
                 Inl e \<Rightarrow> Inl e
               | Inr lines \<Rightarrow> Inr (t1\<lparr>required_chars := Some (concat lines)\<rparr>))
            else Inr t1) of
        Inl e \<Rightarrow> Inl e
      | Inr t2 \<Rightarrow>
          (let t3 = t2\<lparr>accept_language :=
                         SetRepeatedTrainerSpecFromFlag E (FLAGS_accept_language F) [],
                       control_symbols :=
                         SetRepeatedTrainerSpecFromFlag E (FLAGS_control_symbols F) [],
                       user_defined_symbols :=
                         SetRepeatedTrainerSpecFromFlag E (FLAGS_user_defined_symbols F) []\<rparr> in
           case SetRepeatedTrainerSpecFromFile E (FLAGS_control_symbols_file F)
                  (control_symbols t3) of
             Inl e \<Rightarrow> Inl e
           | Inr cs \<Rightarrow>
               (case SetRepeatedTrainerSpecFromFile E (FLAGS_user_defined_symbols_file F)
                       (user_defined_symbols t3) of
                  Inl e \<Rightarrow> Inl e
                | Inr us \<Rightarrow> Inr (t3\<lparr>control_symbols := cs, user_defined_symbols := us\<rparr>))))"

text \<open>Lines 264 to 267: the normalizer spec, four setters.\<close>

definition normalizer_spec_of :: "'c train_flags \<Rightarrow> NormalizerSpec" where
  "normalizer_spec_of F =
     NormalizerSpec_default
       \<lparr>name := Some (FLAGS_normalization_rule_name_train F),
        normalization_rule_tsv := Some (FLAGS_normalization_rule_tsv_train F),
        add_dummy_prefix := Some (FLAGS_add_dummy_prefix F),
        remove_extra_whitespaces := Some (FLAGS_remove_extra_whitespaces_train F)\<rparr>"

text \<open>Lines 269 to 275: the denormalizer spec.\<close>

definition denormalizer_spec_of :: "'c train_flags \<Rightarrow> NormalizerSpec" where
  "denormalizer_spec_of F =
     (if FLAGS_denormalization_rule_tsv F \<noteq> '''' then
        NormalizerSpec_default
          \<lparr>normalization_rule_tsv := Some (FLAGS_denormalization_rule_tsv F),
           add_dummy_prefix := Some False,
           remove_extra_whitespaces := Some False,
           escape_whitespaces := Some False\<rparr>
      else NormalizerSpec_default)"

text \<open>
  The whole of \<^verbatim>\<open>main\<close>, lines 163 to 283. The flag \<^verbatim>\<open>random_seed\<close> is a
  \<^verbatim>\<open>uint32\<close> and the comparison with \<^verbatim>\<open>-1\<close> is made at that type.
\<close>

definition main_train :: "'c train_collaborators \<Rightarrow> 'c train_flags \<Rightarrow> 'c train_run" where
  "main_train E F =
     (if FLAGS_input_train F = '''' then
        train_run_init
          \<lparr>train_exit := Some (CheckFailed ''!sentencepiece::GetFlag(FLAGS_input).empty()'')\<rparr>
      else if FLAGS_model_prefix F = '''' then
        train_run_init
          \<lparr>train_exit :=
             Some (CheckFailed ''!sentencepiece::GetFlag(FLAGS_model_prefix).empty()'')\<rparr>
      else
        (let r = train_run_init
                   \<lparr>seed := (if FLAGS_random_seed F \<noteq> - 1
                              then Some (FLAGS_random_seed F) else None)\<rparr> in
         case trainer_spec_of E F of
           Inl e \<Rightarrow> r\<lparr>train_exit := Some e\<rparr>
         | Inr trainer_spec0 \<Rightarrow>
             (let normalizer_spec = normalizer_spec_of F;
                  denormalizer_spec = denormalizer_spec_of F in
              case PopulateModelTypeFromString E (FLAGS_model_type F) trainer_spec0 of
                Inl msg \<Rightarrow> r\<lparr>train_exit := Some (CheckFailed msg)\<rparr>
              | Inr trainer_spec \<Rightarrow>
                  (case Train E trainer_spec normalizer_spec denormalizer_spec of
                     Some msg \<Rightarrow>
                       r\<lparr>train_args := Some (trainer_spec, normalizer_spec, denormalizer_spec),
                         train_exit := Some (CheckFailed msg)\<rparr>
                   | None \<Rightarrow>
                       r\<lparr>train_args :=
                           Some (trainer_spec, normalizer_spec, denormalizer_spec)\<rparr>))))"

subsection \<open>Vocabulary of the statements\<close>

text \<open>
  The lines the stream named \<open>f\<close> yields: those \<^verbatim>\<open>ReadLine\<close> returns when the stream
  opens, none when it does not.
\<close>

definition file_lines :: "collaborators \<Rightarrow> string \<Rightarrow> string list" where
  "file_lines E f = (case NewReadableFile E f of Inl msg \<Rightarrow> [] | Inr ls \<Rightarrow> ls)"

text \<open>Whether the stream named \<open>f\<close> opens for reading.\<close>

definition readable :: "collaborators \<Rightarrow> string \<Rightarrow> bool" where
  "readable E f = (case NewReadableFile E f of Inl msg \<Rightarrow> False | Inr ls \<Rightarrow> True)"

subsection \<open>Concrete collaborators and command lines\<close>

text \<open>
  One instance of each collaborator record, on which the drivers are evaluated below: a
  model file \<^verbatim>\<open>m.model\<close> whose embedded spec has all three flags on, a rule compiler that
  stores a blob, a normalizer that drops spaces exactly when
  \<^verbatim>\<open>remove_extra_whitespaces\<close> is on, the standard input with two lines and a file
  \<^verbatim>\<open>in.txt\<close> with one.
\<close>

definition sample_model_spec :: NormalizerSpec where
  "sample_model_spec =
     \<lparr>name = Some ''nmt_nfkc'', precompiled_charsmap = Some ''BLOB'',
      add_dummy_prefix = Some True, remove_extra_whitespaces = Some True,
      escape_whitespaces = Some True, normalization_rule_tsv = None\<rparr>"

definition sample_env :: collaborators where
  "sample_env =
     \<lparr>Load = (\<lambda>f. if f = ''m.model'' then Inr sample_model_spec else Inl ''Not found''),
      PopulateNormalizerSpec = (\<lambda>s. Inr (s\<lparr>precompiled_charsmap := Some ''COMPILED''\<rparr>)),
      DecompileCharsMap =
        (\<lambda>b. if b = ''BLOB'' then Inr [([65], [97])] else Inl ''Invalid blob''),
      SaveCharsMap = (\<lambda>f m. None),
      Normalize =
        (\<lambda>s l. if remove_extra_whitespaces s = Some True
                then filter (\<lambda>c. c \<noteq> CHR '' '') l else l),
      NewWritableFile = (\<lambda>f. None),
      NewReadableFile =
        (\<lambda>f. if f = '''' then Inr [''a b'', ''c'']
              else if f = ''in.txt'' then Inr [''x y'']
              else Inl ''No such file'')\<rparr>"

definition sample_train_env :: "unit train_collaborators" where
  "sample_train_env =
     \<lparr>StrSplitAsCSV = (\<lambda>s. [s]),
      NewReadableFile_train = (\<lambda>f. Inl ''No such file''),
      PopulateModelTypeFromString = (\<lambda>t s. Inr s),
      Train = (\<lambda>t n d. None)\<rparr>"

definition sample_train_flags :: "unit train_flags" where
  "sample_train_flags =
     \<lparr>FLAGS_input_train = ''corpus.txt'',
      FLAGS_model_prefix = ''m'',
      FLAGS_model_type = ''unigram'',
      FLAGS_random_seed = - 1,
      FLAGS_copied = (),
      FLAGS_required_chars = '''',
      FLAGS_required_chars_file = '''',
      FLAGS_accept_language = '''',
      FLAGS_control_symbols = '''',
      FLAGS_control_symbols_file = '''',
      FLAGS_user_defined_symbols = '''',
      FLAGS_user_defined_symbols_file = '''',
      FLAGS_normalization_rule_name_train = ''nmt_nfkc'',
      FLAGS_normalization_rule_tsv_train = '''',
      FLAGS_denormalization_rule_tsv = '''',
      FLAGS_add_dummy_prefix = True,
      FLAGS_remove_extra_whitespaces_train = True\<rparr>"

section \<open>Properties of the normalize driver\<close>

subsection \<open>The two loops\<close>

text \<open>
  The inner loop appends to \<open>lines_read\<close> and \<open>written\<close> what a \<open>map\<close> over the lines
  gives; the outer loop keeps \<open>engine\<close> and \<open>saved\<close>, opens a prefix of the names it is
  given, and can only die of a failed \<^verbatim>\<open>CHECK_OK\<close>.
\<close>


lemma normalize_lines_eq:
  "normalize_lines E s ls r =
     r\<lparr>lines_read := lines_read r @ ls, written := written r @ map (Normalize E s) ls\<rparr>"
  by (induction ls arbitrary: r) simp_all

lemma normalize_files_engine: "engine (normalize_files E s fs r) = engine r"
  by (induction fs arbitrary: r) (simp_all add: normalize_lines_eq split: sum.splits)

lemma normalize_files_saved: "saved (normalize_files E s fs r) = saved r"
  by (induction fs arbitrary: r) (simp_all add: normalize_lines_eq split: sum.splits)

lemma normalize_files_exit:
  "exit (normalize_files E s fs r) = Some (LogFatal msg) \<Longrightarrow> exit r = Some (LogFatal msg)"
proof (induction fs arbitrary: r)
  case Nil
  then show ?case by simp
next
  case (Cons f fs)
  show ?case
  proof (cases "NewReadableFile E f")
    case (Inl m)
    with Cons.prems show ?thesis by simp
  next
    case (Inr ls)
    with Cons.prems
    have "exit (normalize_files E s fs (normalize_lines E s ls (r\<lparr>opened := opened r @ [f]\<rparr>)))
            = Some (LogFatal msg)"
      by simp
    from Cons.IH [OF this] show ?thesis by (simp add: normalize_lines_eq)
  qed
qed

lemma normalize_files_written:
  "written r = map (Normalize E s) (lines_read r) \<Longrightarrow>
   written (normalize_files E s fs r) = map (Normalize E s) (lines_read (normalize_files E s fs r))"
  by (induction fs arbitrary: r) (simp_all add: normalize_lines_eq split: sum.splits)

lemma normalize_files_lines_read:
  "lines_read r = concat (map (file_lines E) (opened r)) \<Longrightarrow>
   lines_read (normalize_files E s fs r) =
     concat (map (file_lines E) (opened (normalize_files E s fs r)))"
  by (induction fs arbitrary: r)
     (simp_all add: normalize_lines_eq file_lines_def split: sum.splits)

lemma normalize_files_opened_prefix:
  "\<exists>k \<le> length fs. opened (normalize_files E s fs r) = opened r @ take k fs"
proof (induction fs arbitrary: r)
  case Nil
  show ?case by simp
next
  case (Cons f fs)
  show ?case
  proof (cases "NewReadableFile E f")
    case (Inl msg)
    then have "opened (normalize_files E s (f # fs) r) = opened r @ take 1 (f # fs)"
      by simp
    then show ?thesis by (intro exI [of _ 1]) simp
  next
    case (Inr ls)
    from Cons.IH [of "normalize_lines E s ls (r\<lparr>opened := opened r @ [f]\<rparr>)"]
    obtain k where k: "k \<le> length fs"
      "opened (normalize_files E s fs (normalize_lines E s ls (r\<lparr>opened := opened r @ [f]\<rparr>)))
         = opened r @ [f] @ take k fs"
      by (auto simp: normalize_lines_eq)
    with Inr have "opened (normalize_files E s (f # fs) r) = opened r @ take (Suc k) (f # fs)"
      by simp
    with k(1) show ?thesis by (intro exI [of _ "Suc k"]) simp
  qed
qed

lemma normalize_files_opened_nonempty:
  "fs \<noteq> [] \<Longrightarrow> opened (normalize_files E s fs r) \<noteq> []"
proof (cases fs)
  case Nil
  then show "fs \<noteq> [] \<Longrightarrow> ?thesis" by simp
next
  case (Cons f fs')
  show ?thesis
  proof (cases "NewReadableFile E f")
    case (Inl msg)
    with Cons show ?thesis by simp
  next
    case (Inr ls)
    obtain k where
      "opened (normalize_files E s fs' (normalize_lines E s ls (r\<lparr>opened := opened r @ [f]\<rparr>)))
         = opened (normalize_lines E s ls (r\<lparr>opened := opened r @ [f]\<rparr>)) @ take k fs'"
      using normalize_files_opened_prefix by blast
    with Cons Inr show ?thesis by (simp add: normalize_lines_eq)
  qed
qed

lemma normalize_files_all_readable:
  "\<forall>f \<in> set fs. readable E f \<Longrightarrow>
   normalize_files E s fs r =
     r\<lparr>opened := opened r @ fs,
       lines_read := lines_read r @ concat (map (file_lines E) fs),
       written := written r @ map (Normalize E s) (concat (map (file_lines E) fs))\<rparr>"
  by (induction fs arbitrary: r)
     (auto simp: normalize_lines_eq file_lines_def readable_def split: sum.splits)

lemma engine_main_final_spec:
  "engine (main E F argv) = Some s \<Longrightarrow> final_spec E F = Inr s"
  by (auto simp: main_def run_init_def normalize_files_engine
           split: sum.splits option.splits if_splits)

subsection \<open>Which rule source is used, and when there is none\<close>

text \<open>The run as a function of the resolved spec, and the spec as a function of the first
  source that is not empty.\<close>

lemma main_engine:
  assumes "\<not> FLAGS_decompile F" and "final_spec E F = Inr s"
  shows "engine (main E F argv) = Some s"
  using assms
  by (simp add: main_def run_init_def normalize_files_engine split: option.splits)

lemma main_final_spec_error:
  "final_spec E F = Inl e \<Longrightarrow> main E F argv = run_init\<lparr>exit := Some e\<rparr>"
  by (simp add: main_def)

lemma main_saved:
  assumes "saved (main E F argv) = Some (f, m)"
  shows "\<exists>s. final_spec E F = Inr s
           \<and> DecompileCharsMap E (precompiled_charsmap_get s) = Inr m"
  using assms
  by (auto simp: main_def run_init_def normalize_files_saved
           split: sum.splits option.splits if_splits)

lemma final_spec_of_model:
  "FLAGS_model F \<noteq> '''' \<Longrightarrow>
   final_spec E F =
     (case Load E (FLAGS_model F) of
        Inl msg \<Rightarrow> Inl (CheckFailed msg)
      | Inr ms \<Rightarrow> Inr (override_spec F ms))"
  by (simp add: final_spec_def resolve_spec_def split: sum.splits)

lemma final_spec_of_tsv:
  "FLAGS_model F = '''' \<Longrightarrow> FLAGS_normalization_rule_tsv F \<noteq> '''' \<Longrightarrow>
   final_spec E F =
     (case PopulateNormalizerSpec E
             (NormalizerSpec_default
                \<lparr>normalization_rule_tsv := Some (FLAGS_normalization_rule_tsv F)\<rparr>) of
        Inl msg \<Rightarrow> Inl (CheckFailed msg)
      | Inr ps \<Rightarrow> Inr (override_spec F ps))"
  by (simp add: final_spec_def resolve_spec_def split: sum.splits)

lemma final_spec_of_name:
  "FLAGS_model F = '''' \<Longrightarrow> FLAGS_normalization_rule_tsv F = '''' \<Longrightarrow>
   FLAGS_normalization_rule_name F \<noteq> '''' \<Longrightarrow>
   final_spec E F =
     (case PopulateNormalizerSpec E
             (NormalizerSpec_default
                \<lparr>name := Some (FLAGS_normalization_rule_name F)\<rparr>) of
        Inl msg \<Rightarrow> Inl (CheckFailed msg)
      | Inr ps \<Rightarrow> Inr (override_spec F ps))"
  by (simp add: final_spec_def resolve_spec_def split: sum.splits)

lemma log_fatal_iff:
  "(\<exists>msg. exit (main E F argv) = Some (LogFatal msg)) =
     (FLAGS_model F = '''' \<and> FLAGS_normalization_rule_tsv F = '''' \<and>
      FLAGS_normalization_rule_name F = '''')"
proof
  assume "\<exists>msg. exit (main E F argv) = Some (LogFatal msg)"
  then obtain msg where m: "exit (main E F argv) = Some (LogFatal msg)" ..
  show "FLAGS_model F = '''' \<and> FLAGS_normalization_rule_tsv F = '''' \<and>
      FLAGS_normalization_rule_name F = ''''"
  proof (rule ccontr)
    assume "\<not> ?thesis"
    then have "\<And>e. resolve_spec E F = Inl e \<Longrightarrow> \<exists>m. e = CheckFailed m"
      by (auto simp: resolve_spec_def split: sum.splits if_splits)
    with m show False
      by (auto simp: main_def final_spec_def run_init_def Let_def
               dest!: normalize_files_exit
               split: sum.splits option.splits if_splits)
  qed
next
  assume "FLAGS_model F = '''' \<and> FLAGS_normalization_rule_tsv F = '''' \<and>
      FLAGS_normalization_rule_name F = ''''"
  then show "\<exists>msg. exit (main E F argv) = Some (LogFatal msg)"
    by (simp add: main_def final_spec_def resolve_spec_def run_init_def)
qed

text \<open>
  Claim C1, as amended. The claim says that a command line naming more than one rule
  source (model, rule TSV, rule name) without \<^verbatim>\<open>--use_internal_normalization\<close> is
  rejected. The driver does not reject it: the chain of lines 63 to 78 takes the first
  source that is not empty, in the order model, rule TSV, rule name, whatever the other
  two flags hold. What holds is this. The run dies of the \<^verbatim>\<open>LOG(FATAL)\<close> of line 76
  exactly when all three sources are empty. With a model named, the spec is the one loaded
  from the model (after lines 81 to 86), it is the spec the normalizer is constructed from,
  and a model that does not load ends the run: no other source is tried. With no model and
  a rule TSV named, the same holds of the spec populated from the TSV; with neither and a
  rule name, of the spec populated from the name.
\<close>

theorem rule_source_chain:
  "((\<exists>msg. exit (main E F argv) = Some (LogFatal msg)) =
      (FLAGS_model F = '''' \<and> FLAGS_normalization_rule_tsv F = '''' \<and>
       FLAGS_normalization_rule_name F = ''''))
   \<and> (FLAGS_model F \<noteq> '''' \<longrightarrow>
        (Load E (FLAGS_model F) = Inr ms \<longrightarrow>
           final_spec E F = Inr (override_spec F ms)
         \<and> (\<not> FLAGS_decompile F \<longrightarrow> engine (main E F argv) = Some (override_spec F ms)))
      \<and> (Load E (FLAGS_model F) = Inl err \<longrightarrow>
           main E F argv = run_init\<lparr>exit := Some (CheckFailed err)\<rparr>))
   \<and> (FLAGS_model F = '''' \<and> FLAGS_normalization_rule_tsv F \<noteq> '''' \<longrightarrow>
        (PopulateNormalizerSpec E
           (NormalizerSpec_default
              \<lparr>normalization_rule_tsv := Some (FLAGS_normalization_rule_tsv F)\<rparr>) = Inr ps \<longrightarrow>
           final_spec E F = Inr (override_spec F ps)
         \<and> (\<not> FLAGS_decompile F \<longrightarrow> engine (main E F argv) = Some (override_spec F ps)))
      \<and> (PopulateNormalizerSpec E
           (NormalizerSpec_default
              \<lparr>normalization_rule_tsv := Some (FLAGS_normalization_rule_tsv F)\<rparr>) = Inl err \<longrightarrow>
           main E F argv = run_init\<lparr>exit := Some (CheckFailed err)\<rparr>))
   \<and> (FLAGS_model F = '''' \<and> FLAGS_normalization_rule_tsv F = ''''
        \<and> FLAGS_normalization_rule_name F \<noteq> '''' \<longrightarrow>
        (PopulateNormalizerSpec E
           (NormalizerSpec_default
              \<lparr>name := Some (FLAGS_normalization_rule_name F)\<rparr>) = Inr ps \<longrightarrow>
           final_spec E F = Inr (override_spec F ps)
         \<and> (\<not> FLAGS_decompile F \<longrightarrow> engine (main E F argv) = Some (override_spec F ps)))
      \<and> (PopulateNormalizerSpec E
           (NormalizerSpec_default
              \<lparr>name := Some (FLAGS_normalization_rule_name F)\<rparr>) = Inl err \<longrightarrow>
           main E F argv = run_init\<lparr>exit := Some (CheckFailed err)\<rparr>))"
proof (intro conjI impI)
  show "(\<exists>msg. exit (main E F argv) = Some (LogFatal msg)) =
      (FLAGS_model F = '''' \<and> FLAGS_normalization_rule_tsv F = '''' \<and>
       FLAGS_normalization_rule_name F = '''')"
    by (rule log_fatal_iff)
next
  assume "FLAGS_model F \<noteq> ''''" "Load E (FLAGS_model F) = Inr ms"
  then show f: "final_spec E F = Inr (override_spec F ms)"
    by (simp add: final_spec_of_model)
  assume "\<not> FLAGS_decompile F"
  then show "engine (main E F argv) = Some (override_spec F ms)"
    using f by (rule main_engine)
next
  assume "FLAGS_model F \<noteq> ''''" "Load E (FLAGS_model F) = Inl err"
  then have "final_spec E F = Inl (CheckFailed err)"
    by (simp add: final_spec_of_model)
  then show "main E F argv = run_init\<lparr>exit := Some (CheckFailed err)\<rparr>"
    by (rule main_final_spec_error)
next
  assume "FLAGS_model F = '''' \<and> FLAGS_normalization_rule_tsv F \<noteq> ''''"
    "PopulateNormalizerSpec E
       (NormalizerSpec_default
          \<lparr>normalization_rule_tsv := Some (FLAGS_normalization_rule_tsv F)\<rparr>) = Inr ps"
  then show f: "final_spec E F = Inr (override_spec F ps)"
    by (simp add: final_spec_of_tsv)
  assume "\<not> FLAGS_decompile F"
  then show "engine (main E F argv) = Some (override_spec F ps)"
    using f by (rule main_engine)
next
  assume "FLAGS_model F = '''' \<and> FLAGS_normalization_rule_tsv F \<noteq> ''''"
    "PopulateNormalizerSpec E
       (NormalizerSpec_default
          \<lparr>normalization_rule_tsv := Some (FLAGS_normalization_rule_tsv F)\<rparr>) = Inl err"
  then have "final_spec E F = Inl (CheckFailed err)"
    by (simp add: final_spec_of_tsv)
  then show "main E F argv = run_init\<lparr>exit := Some (CheckFailed err)\<rparr>"
    by (rule main_final_spec_error)
next
  assume "FLAGS_model F = '''' \<and> FLAGS_normalization_rule_tsv F = ''''
        \<and> FLAGS_normalization_rule_name F \<noteq> ''''"
    "PopulateNormalizerSpec E
       (NormalizerSpec_default\<lparr>name := Some (FLAGS_normalization_rule_name F)\<rparr>) = Inr ps"
  then show f: "final_spec E F = Inr (override_spec F ps)"
    by (simp add: final_spec_of_name)
  assume "\<not> FLAGS_decompile F"
  then show "engine (main E F argv) = Some (override_spec F ps)"
    using f by (rule main_engine)
next
  assume "FLAGS_model F = '''' \<and> FLAGS_normalization_rule_tsv F = ''''
        \<and> FLAGS_normalization_rule_name F \<noteq> ''''"
    "PopulateNormalizerSpec E
       (NormalizerSpec_default\<lparr>name := Some (FLAGS_normalization_rule_name F)\<rparr>) = Inl err"
  then have "final_spec E F = Inl (CheckFailed err)"
    by (simp add: final_spec_of_name)
  then show "main E F argv = run_init\<lparr>exit := Some (CheckFailed err)\<rparr>"
    by (rule main_final_spec_error)
qed

theorem rule_source_chain_witness:
  "FLAGS_model (normalize_flags_default
      \<lparr>FLAGS_model := ''m.model'', FLAGS_normalization_rule_tsv := ''rules.tsv'',
       FLAGS_normalization_rule_name := ''nfkc''\<rparr>) \<noteq> '''' \<and>
   Load sample_env (FLAGS_model (normalize_flags_default
      \<lparr>FLAGS_model := ''m.model'', FLAGS_normalization_rule_tsv := ''rules.tsv'',
       FLAGS_normalization_rule_name := ''nfkc''\<rparr>)) = Inr sample_model_spec \<and>
   \<not> FLAGS_decompile (normalize_flags_default
      \<lparr>FLAGS_model := ''m.model'', FLAGS_normalization_rule_tsv := ''rules.tsv'',
       FLAGS_normalization_rule_name := ''nfkc''\<rparr>) \<and>
   engine (main sample_env (normalize_flags_default
      \<lparr>FLAGS_model := ''m.model'', FLAGS_normalization_rule_tsv := ''rules.tsv'',
       FLAGS_normalization_rule_name := ''nfkc''\<rparr>) [''spm_normalize''])
     = Some (sample_model_spec
         \<lparr>add_dummy_prefix := Some False, escape_whitespaces := Some False\<rparr>) \<and>
   engine (main sample_env (normalize_flags_default
      \<lparr>FLAGS_normalization_rule_tsv := ''rules.tsv'',
       FLAGS_normalization_rule_name := ''nfkc''\<rparr>) [''spm_normalize''])
     = Some \<lparr>name = None, precompiled_charsmap = Some ''COMPILED'',
             add_dummy_prefix = Some False, remove_extra_whitespaces = Some True,
             escape_whitespaces = Some False, normalization_rule_tsv = Some ''rules.tsv''\<rparr> \<and>
   engine (main sample_env (normalize_flags_default
      \<lparr>FLAGS_normalization_rule_name := ''nfkc''\<rparr>) [''spm_normalize''])
     = Some \<lparr>name = Some ''nfkc'', precompiled_charsmap = Some ''COMPILED'',
             add_dummy_prefix = Some False, remove_extra_whitespaces = Some True,
             escape_whitespaces = Some False, normalization_rule_tsv = None\<rparr> \<and>
   main sample_env (normalize_flags_default
      \<lparr>FLAGS_model := ''missing.model'', FLAGS_normalization_rule_tsv := ''rules.tsv''\<rparr>)
      [''spm_normalize'']
     = run_init\<lparr>exit := Some (CheckFailed ''Not found'')\<rparr> \<and>
   \<not> (\<exists>msg. exit (main sample_env (normalize_flags_default
      \<lparr>FLAGS_model := ''m.model'', FLAGS_normalization_rule_tsv := ''rules.tsv'',
       FLAGS_normalization_rule_name := ''nfkc''\<rparr>) [''spm_normalize''])
         = Some (LogFatal msg))"
proof -
  let ?F1 = "normalize_flags_default
      \<lparr>FLAGS_model := ''m.model'', FLAGS_normalization_rule_tsv := ''rules.tsv'',
       FLAGS_normalization_rule_name := ''nfkc''\<rparr>"
  let ?F2 = "normalize_flags_default
      \<lparr>FLAGS_normalization_rule_tsv := ''rules.tsv'',
       FLAGS_normalization_rule_name := ''nfkc''\<rparr>"
  let ?F3 = "normalize_flags_default\<lparr>FLAGS_normalization_rule_name := ''nfkc''\<rparr>"
  let ?F4 = "normalize_flags_default
      \<lparr>FLAGS_model := ''missing.model'', FLAGS_normalization_rule_tsv := ''rules.tsv''\<rparr>"
  let ?argv = "[''spm_normalize'']"
  let ?p2 = "NormalizerSpec_default
      \<lparr>normalization_rule_tsv := Some ''rules.tsv'', precompiled_charsmap := Some ''COMPILED''\<rparr>"
  let ?p3 = "NormalizerSpec_default
      \<lparr>name := Some ''nfkc'', precompiled_charsmap := Some ''COMPILED''\<rparr>"
  have m1: "FLAGS_model ?F1 \<noteq> ''''" by simp
  have l1: "Load sample_env (FLAGS_model ?F1) = Inr sample_model_spec"
    by (simp add: sample_env_def)
  have d1: "\<not> FLAGS_decompile ?F1" by (simp add: normalize_flags_default_def)
  have m2: "FLAGS_model ?F2 = '''' \<and> FLAGS_normalization_rule_tsv ?F2 \<noteq> ''''"
    by (simp add: normalize_flags_default_def)
  have l2: "PopulateNormalizerSpec sample_env
      (NormalizerSpec_default
         \<lparr>normalization_rule_tsv := Some (FLAGS_normalization_rule_tsv ?F2)\<rparr>) = Inr ?p2"
    by (simp add: sample_env_def)
  have d2: "\<not> FLAGS_decompile ?F2" by (simp add: normalize_flags_default_def)
  have m3: "FLAGS_model ?F3 = '''' \<and> FLAGS_normalization_rule_tsv ?F3 = ''''
      \<and> FLAGS_normalization_rule_name ?F3 \<noteq> ''''"
    by (simp add: normalize_flags_default_def)
  have l3: "PopulateNormalizerSpec sample_env
      (NormalizerSpec_default
         \<lparr>name := Some (FLAGS_normalization_rule_name ?F3)\<rparr>) = Inr ?p3"
    by (simp add: sample_env_def)
  have d3: "\<not> FLAGS_decompile ?F3" by (simp add: normalize_flags_default_def)
  have m4: "FLAGS_model ?F4 \<noteq> ''''" by simp
  have l4: "Load sample_env (FLAGS_model ?F4) = Inl ''Not found''"
    by (simp add: sample_env_def)
  from rule_source_chain [where F = ?F1 and E = sample_env and argv = ?argv and ms = sample_model_spec]
    m1 l1 d1
  have e1: "engine (main sample_env ?F1 ?argv) = Some (override_spec ?F1 sample_model_spec)"
    and n1: "\<not> (\<exists>msg. exit (main sample_env ?F1 ?argv) = Some (LogFatal msg))"
    by blast+
  from rule_source_chain [where F = ?F2 and E = sample_env and argv = ?argv and ps = ?p2] m2 l2 d2
  have e2: "engine (main sample_env ?F2 ?argv) = Some (override_spec ?F2 ?p2)"
    by blast
  from rule_source_chain [where F = ?F3 and E = sample_env and argv = ?argv and ps = ?p3] m3 l3 d3
  have e3: "engine (main sample_env ?F3 ?argv) = Some (override_spec ?F3 ?p3)"
    by blast
  from rule_source_chain [where F = ?F4 and E = sample_env and argv = ?argv and err = "''Not found''"]
    m4 l4
  have e4: "main sample_env ?F4 ?argv = run_init\<lparr>exit := Some (CheckFailed ''Not found'')\<rparr>"
    by blast
  have o1: "override_spec ?F1 sample_model_spec
      = sample_model_spec\<lparr>add_dummy_prefix := Some False, escape_whitespaces := Some False\<rparr>"
    by (simp add: override_spec_def normalize_flags_default_def sample_model_spec_def)
  have o2: "override_spec ?F2 ?p2
      = \<lparr>name = None, precompiled_charsmap = Some ''COMPILED'',
             add_dummy_prefix = Some False, remove_extra_whitespaces = Some True,
             escape_whitespaces = Some False, normalization_rule_tsv = Some ''rules.tsv''\<rparr>"
    by (simp add: override_spec_def normalize_flags_default_def NormalizerSpec_default_def)
  have o3: "override_spec ?F3 ?p3
      = \<lparr>name = Some ''nfkc'', precompiled_charsmap = Some ''COMPILED'',
             add_dummy_prefix = Some False, remove_extra_whitespaces = Some True,
             escape_whitespaces = Some False, normalization_rule_tsv = None\<rparr>"
    by (simp add: override_spec_def normalize_flags_default_def NormalizerSpec_default_def)
  from m1 l1 d1 e1 e2 e3 e4 n1 show ?thesis
    unfolding o1 o2 o3 by (intro conjI)
qed

text \<open>
  Claim C1, as stated, fails on \<^verbatim>\<open>spm_normalize --model=m.model
  --normalization_rule_tsv=rules.tsv\<close>: two sources, no
  \<^verbatim>\<open>--use_internal_normalization\<close>, and the run normalizes the standard input with the
  spec of the model and returns 0.
\<close>

theorem two_rule_sources_accepted:
  "FLAGS_model (normalize_flags_default
      \<lparr>FLAGS_model := ''m.model'', FLAGS_normalization_rule_tsv := ''rules.tsv''\<rparr>) \<noteq> '''' \<and>
   FLAGS_normalization_rule_tsv (normalize_flags_default
      \<lparr>FLAGS_model := ''m.model'', FLAGS_normalization_rule_tsv := ''rules.tsv''\<rparr>) \<noteq> '''' \<and>
   \<not> FLAGS_use_internal_normalization (normalize_flags_default
      \<lparr>FLAGS_model := ''m.model'', FLAGS_normalization_rule_tsv := ''rules.tsv''\<rparr>) \<and>
   main sample_env
     (normalize_flags_default
        \<lparr>FLAGS_model := ''m.model'', FLAGS_normalization_rule_tsv := ''rules.tsv''\<rparr>)
     [''spm_normalize''] =
     \<lparr>engine = Some (sample_model_spec
         \<lparr>add_dummy_prefix := Some False, escape_whitespaces := Some False\<rparr>),
      saved = None, opened = [''''], lines_read = [''a b'', ''c''],
      written = [''ab'', ''c''], exit = None\<rparr>"
  by (simp add: main_def final_spec_def resolve_spec_def override_spec_def run_init_def
      rest_args_of_def input_files_def normalize_flags_default_def sample_env_def
      sample_model_spec_def)

text \<open>
  Claim C2. When \<^verbatim>\<open>--model\<close>, \<^verbatim>\<open>--normalization_rule_tsv\<close> and
  \<^verbatim>\<open>--normalization_rule_name\<close> are all empty the run dies of the \<^verbatim>\<open>LOG(FATAL)\<close> of
  line 76: no normalizer is constructed, nothing is saved or written, and no default rule
  set takes the place of the missing one.
\<close>

theorem no_rule_source_is_fatal:
  assumes "FLAGS_model F = ''''"
    and "FLAGS_normalization_rule_tsv F = ''''"
    and "FLAGS_normalization_rule_name F = ''''"
  shows "main E F argv =
           run_init\<lparr>exit := Some (LogFatal
             ''Sets --model, normalization_rule_tsv, or normalization_rule_name flag.'')\<rparr>
         \<and> engine (main E F argv) = None
         \<and> saved (main E F argv) = None
         \<and> written (main E F argv) = []"
  using assms by (simp add: main_def final_spec_def resolve_spec_def run_init_def)

theorem no_rule_source_is_fatal_witness:
  "FLAGS_model normalize_flags_default = '''' \<and>
   FLAGS_normalization_rule_tsv normalize_flags_default = '''' \<and>
   FLAGS_normalization_rule_name normalize_flags_default = '''' \<and>
   exit (main sample_env normalize_flags_default [''spm_normalize'']) =
     Some (LogFatal ''Sets --model, normalization_rule_tsv, or normalization_rule_name flag.'') \<and>
   engine (main sample_env normalize_flags_default [''spm_normalize'']) = None"
proof -
  have h1: "FLAGS_model normalize_flags_default = ''''"
    and h2: "FLAGS_normalization_rule_tsv normalize_flags_default = ''''"
    and h3: "FLAGS_normalization_rule_name normalize_flags_default = ''''"
    by (simp_all add: normalize_flags_default_def)
  show ?thesis
    using h1 h2 h3 no_rule_source_is_fatal [OF h1 h2 h3, of sample_env "[''spm_normalize'']"]
    by (simp add: run_init_def)
qed

subsection \<open>Facts about \<^verbatim>\<open>main\<close> shared by the statements below\<close>

lemma main_cong_flags:
  assumes "final_spec E F' = final_spec E F"
    and "FLAGS_decompile F' = FLAGS_decompile F"
    and "FLAGS_output F' = FLAGS_output F"
    and "FLAGS_input F' = FLAGS_input F"
  shows "main E F' argv = main E F argv"
  unfolding main_def rest_args_of_def assms ..

lemma final_spec_model_first:
  "FLAGS_model F \<noteq> '''' \<Longrightarrow>
   final_spec E (F\<lparr>FLAGS_normalization_rule_tsv := t, FLAGS_normalization_rule_name := n\<rparr>)
     = final_spec E F"
  by (simp add: final_spec_def resolve_spec_def override_spec_def split: sum.splits)

lemma final_spec_tsv_second:
  "FLAGS_model F = '''' \<Longrightarrow> FLAGS_normalization_rule_tsv F \<noteq> '''' \<Longrightarrow>
   final_spec E (F\<lparr>FLAGS_normalization_rule_name := n\<rparr>) = final_spec E F"
  by (simp add: final_spec_def resolve_spec_def override_spec_def split: sum.splits)

lemma main_normalizing:
  assumes "\<not> FLAGS_decompile F" and "final_spec E F = Inr s"
    and "NewWritableFile E (FLAGS_output F) = None"
  shows "main E F argv =
           normalize_files E s (input_files (rest_args_of F argv)) (run_init\<lparr>engine := Some s\<rparr>)"
  using assms by (simp add: main_def)

lemma main_opened_cases:
  "opened (main E F argv) = [] \<or>
   (\<exists>s. \<not> FLAGS_decompile F \<and> final_spec E F = Inr s \<and>
        NewWritableFile E (FLAGS_output F) = None)"
  by (auto simp: main_def run_init_def split: sum.splits option.splits)

lemma main_opened_prefix:
  "\<exists>k. opened (main E F argv) = take k (input_files (rest_args_of F argv))"
proof (cases "opened (main E F argv) = []")
  case True
  then show ?thesis by (intro exI [of _ 0]) simp
next
  case False
  with main_opened_cases [of E F argv] obtain s where
    s: "\<not> FLAGS_decompile F" "final_spec E F = Inr s"
       "NewWritableFile E (FLAGS_output F) = None"
    by blast
  let ?fs = "input_files (rest_args_of F argv)"
  let ?r0 = "run_init\<lparr>engine := Some s\<rparr>"
  obtain k where "opened (normalize_files E s ?fs ?r0) = opened ?r0 @ take k ?fs"
    using normalize_files_opened_prefix by blast
  then show ?thesis
    unfolding main_normalizing [OF s] by (auto simp: run_init_def)
qed

lemma main_argv_irrelevant:
  "FLAGS_input F \<noteq> '''' \<Longrightarrow> main E F argv = main E F argv'"
  by (simp add: main_def rest_args_of_def)

lemma normalize_files_single_opened:
  "opened (normalize_files E s [f] r) = opened r @ [f]"
  by (simp add: normalize_lines_eq split: sum.splits)

lemma main_opened_nonempty:
  assumes "\<not> FLAGS_decompile F" and "final_spec E F = Inr s"
    and "NewWritableFile E (FLAGS_output F) = None"
  shows "opened (main E F argv) \<noteq> []"
proof -
  have "input_files (rest_args_of F argv) \<noteq> []" by (simp add: input_files_def)
  then show ?thesis
    unfolding main_normalizing [OF assms] by (rule normalize_files_opened_nonempty)
qed

lemma precompiled_charsmap_get_override:
  "precompiled_charsmap_get (override_spec F s) = precompiled_charsmap_get s"
  by (simp add: precompiled_charsmap_get_def override_spec_def)

lemma main_lines_read:
  "lines_read (main E F argv) = concat (map (file_lines E) (opened (main E F argv)))"
proof (cases "opened (main E F argv) = [] \<and> lines_read (main E F argv) = []")
  case True
  then show ?thesis by simp
next
  case False
  then obtain s where
    s: "\<not> FLAGS_decompile F" "final_spec E F = Inr s"
       "NewWritableFile E (FLAGS_output F) = None"
    by (auto simp: main_def run_init_def split: sum.splits option.splits if_splits)
  show ?thesis
    unfolding main_normalizing [OF s]
    by (rule normalize_files_lines_read) (simp add: run_init_def)
qed

lemma main_written:
  assumes "\<not> FLAGS_decompile F" and "final_spec E F = Inr s"
  shows "written (main E F argv) = map (Normalize E s) (lines_read (main E F argv))"
proof (cases "NewWritableFile E (FLAGS_output F)")
  case (Some msg)
  with assms show ?thesis by (simp add: main_def run_init_def)
next
  case None
  show ?thesis
    unfolding main_normalizing [OF assms None]
    by (rule normalize_files_written) (simp add: run_init_def)
qed

lemma main_all_readable:
  assumes "\<not> FLAGS_decompile F" and "final_spec E F = Inr s"
    and "NewWritableFile E (FLAGS_output F) = None"
    and "\<forall>f \<in> set (input_files (rest_args_of F argv)). readable E f"
  shows "opened (main E F argv) = input_files (rest_args_of F argv)
       \<and> exit (main E F argv) = None"
  unfolding main_normalizing [OF assms(1-3)]
  using normalize_files_all_readable [OF assms(4), of s "run_init\<lparr>engine := Some s\<rparr>"]
  by (simp add: run_init_def)

subsection \<open>The flags of the engine\<close>

text \<open>
  Claim C3, as amended. Without \<^verbatim>\<open>--use_internal_normalization\<close> the normalizer is
  constructed with \<^verbatim>\<open>add_dummy_prefix\<close> false, \<^verbatim>\<open>escape_whitespaces\<close> false, and
  \<^verbatim>\<open>remove_extra_whitespaces\<close> equal to the flag \<^verbatim>\<open>--remove_extra_whitespaces\<close>,
  whose declared default is true: the third flag is off only when the command line turns
  it off.
\<close>

theorem normalizer_only_flags:
  assumes "\<not> FLAGS_use_internal_normalization F"
    and "engine (main E F argv) = Some s"
  shows "add_dummy_prefix s = Some False
       \<and> escape_whitespaces s = Some False
       \<and> remove_extra_whitespaces s = Some (FLAGS_remove_extra_whitespaces F)
       \<and> FLAGS_remove_extra_whitespaces normalize_flags_default = True"
proof -
  from assms(2) have "final_spec E F = Inr s" by (rule engine_main_final_spec)
  with assms(1) show ?thesis
    by (auto simp: final_spec_def override_spec_def normalize_flags_default_def
             split: sum.splits)
qed

theorem normalizer_only_flags_witness:
  "\<not> FLAGS_use_internal_normalization
       (normalize_flags_default\<lparr>FLAGS_model := ''m.model'',
          FLAGS_remove_extra_whitespaces := False\<rparr>) \<and>
   engine (main sample_env
       (normalize_flags_default\<lparr>FLAGS_model := ''m.model'',
          FLAGS_remove_extra_whitespaces := False\<rparr>) [''spm_normalize'']) =
     Some (sample_model_spec\<lparr>add_dummy_prefix := Some False, escape_whitespaces := Some False,
             remove_extra_whitespaces := Some False\<rparr>) \<and>
   add_dummy_prefix (sample_model_spec\<lparr>add_dummy_prefix := Some False,
             escape_whitespaces := Some False,
             remove_extra_whitespaces := Some False\<rparr>) = Some False \<and>
   escape_whitespaces (sample_model_spec\<lparr>add_dummy_prefix := Some False,
             escape_whitespaces := Some False,
             remove_extra_whitespaces := Some False\<rparr>) = Some False \<and>
   remove_extra_whitespaces (sample_model_spec\<lparr>add_dummy_prefix := Some False,
             escape_whitespaces := Some False,
             remove_extra_whitespaces := Some False\<rparr>) = Some False"
proof -
  let ?F = "normalize_flags_default\<lparr>FLAGS_model := ''m.model'',
          FLAGS_remove_extra_whitespaces := False\<rparr>"
  let ?s = "sample_model_spec\<lparr>add_dummy_prefix := Some False, escape_whitespaces := Some False,
             remove_extra_whitespaces := Some False\<rparr>"
  have h1: "\<not> FLAGS_use_internal_normalization ?F"
    by (simp add: normalize_flags_default_def)
  have h2: "engine (main sample_env ?F [''spm_normalize'']) = Some ?s"
    by (simp add: main_def final_spec_def resolve_spec_def override_spec_def run_init_def
      rest_args_of_def input_files_def normalize_flags_default_def sample_env_def
      sample_model_spec_def)
  show ?thesis
    using h1 h2 normalizer_only_flags [OF h1 h2] by (simp add: normalize_flags_default_def)
qed

text \<open>
  Claim C3, as stated, fails on \<^verbatim>\<open>spm_normalize --normalization_rule_name=nfkc\<close>:
  the command line leaves \<^verbatim>\<open>--remove_extra_whitespaces\<close> alone, and the normalizer is
  constructed with \<^verbatim>\<open>remove_extra_whitespaces\<close> true (the sample normalizer then drops
  the space of the first line).
\<close>

theorem remove_extra_whitespaces_on_by_default:
  "\<not> FLAGS_use_internal_normalization
       (normalize_flags_default\<lparr>FLAGS_normalization_rule_name := ''nfkc''\<rparr>) \<and>
   FLAGS_remove_extra_whitespaces
       (normalize_flags_default\<lparr>FLAGS_normalization_rule_name := ''nfkc''\<rparr>) =
     FLAGS_remove_extra_whitespaces normalize_flags_default \<and>
   engine (main sample_env
       (normalize_flags_default\<lparr>FLAGS_normalization_rule_name := ''nfkc''\<rparr>)
       [''spm_normalize'']) =
     Some \<lparr>name = Some ''nfkc'', precompiled_charsmap = Some ''COMPILED'',
           add_dummy_prefix = Some False, remove_extra_whitespaces = Some True,
           escape_whitespaces = Some False, normalization_rule_tsv = None\<rparr> \<and>
   written (main sample_env
       (normalize_flags_default\<lparr>FLAGS_normalization_rule_name := ''nfkc''\<rparr>)
       [''spm_normalize'']) = [''ab'', ''c'']"
  by (simp add: main_def final_spec_def resolve_spec_def override_spec_def run_init_def
      rest_args_of_def input_files_def normalize_flags_default_def sample_env_def
      NormalizerSpec_default_def)

text \<open>
  Claim C4. With a model named, the run is the same whatever
  \<^verbatim>\<open>--normalization_rule_tsv\<close> and \<^verbatim>\<open>--normalization_rule_name\<close> hold. When the
  model loads, the spec the normalizer is constructed from is the spec embedded in the
  model after lines 81 to 86: its compiled map is the model's, and with
  \<^verbatim>\<open>--use_internal_normalization\<close> the whole spec is the model's; in decompile mode the
  table saved is decompiled from the model's compiled map. When the model does not load
  the run ends there. With no model and a rule TSV named, the run is the same whatever
  \<^verbatim>\<open>--normalization_rule_name\<close> holds, and the normalizer is constructed from the spec
  populated from the TSV.
\<close>

theorem rule_source_precedence:
  "(FLAGS_model F \<noteq> '''' \<longrightarrow>
      main E (F\<lparr>FLAGS_normalization_rule_tsv := t, FLAGS_normalization_rule_name := n\<rparr>) argv
        = main E F argv
      \<and> (Load E (FLAGS_model F) = Inr ms \<longrightarrow>
           resolve_spec E F = Inr ms
         \<and> (\<exists>s. final_spec E F = Inr s
                \<and> precompiled_charsmap s = precompiled_charsmap ms
                \<and> (FLAGS_use_internal_normalization F \<longrightarrow> s = ms))
         \<and> (\<not> FLAGS_decompile F \<longrightarrow>
               (\<exists>s. engine (main E F argv) = Some s
                    \<and> s = override_spec F ms
                    \<and> precompiled_charsmap s = precompiled_charsmap ms
                    \<and> (FLAGS_use_internal_normalization F \<longrightarrow> s = ms)))
         \<and> (saved (main E F argv) = Some (f, m) \<longrightarrow>
               DecompileCharsMap E (precompiled_charsmap_get ms) = Inr m))
      \<and> (Load E (FLAGS_model F) = Inl err \<longrightarrow>
           main E F argv = run_init\<lparr>exit := Some (CheckFailed err)\<rparr>))
   \<and> (FLAGS_model F = '''' \<and> FLAGS_normalization_rule_tsv F \<noteq> '''' \<longrightarrow>
      main E (F\<lparr>FLAGS_normalization_rule_name := n\<rparr>) argv = main E F argv
      \<and> resolve_spec E F =
          (case PopulateNormalizerSpec E
                  (NormalizerSpec_default
                     \<lparr>normalization_rule_tsv := Some (FLAGS_normalization_rule_tsv F)\<rparr>) of
             Inl msg \<Rightarrow> Inl (CheckFailed msg)
           | Inr s \<Rightarrow> Inr s)
      \<and> (PopulateNormalizerSpec E
            (NormalizerSpec_default
               \<lparr>normalization_rule_tsv := Some (FLAGS_normalization_rule_tsv F)\<rparr>) = Inr ps \<longrightarrow>
           (\<not> FLAGS_decompile F \<longrightarrow> engine (main E F argv) = Some (override_spec F ps))
         \<and> (saved (main E F argv) = Some (f, m) \<longrightarrow>
               DecompileCharsMap E (precompiled_charsmap_get ps) = Inr m)))"
proof (intro conjI impI)
  assume m: "FLAGS_model F \<noteq> ''''"
  show "main E (F\<lparr>FLAGS_normalization_rule_tsv := t, FLAGS_normalization_rule_name := n\<rparr>) argv
        = main E F argv"
    by (rule main_cong_flags) (simp_all add: final_spec_model_first [OF m])
  {
    assume l: "Load E (FLAGS_model F) = Inr ms"
    from m l show r: "resolve_spec E F = Inr ms"
      by (simp add: resolve_spec_def)
    from m l have f: "final_spec E F = Inr (override_spec F ms)"
      by (simp add: final_spec_of_model)
    have p: "precompiled_charsmap (override_spec F ms) = precompiled_charsmap ms"
      by (simp add: override_spec_def)
    have u: "FLAGS_use_internal_normalization F \<longrightarrow> override_spec F ms = ms"
      by (simp add: override_spec_def)
    from f p u show "\<exists>s. final_spec E F = Inr s
                  \<and> precompiled_charsmap s = precompiled_charsmap ms
                  \<and> (FLAGS_use_internal_normalization F \<longrightarrow> s = ms)"
      by blast
    {
      assume "\<not> FLAGS_decompile F"
      then have "engine (main E F argv) = Some (override_spec F ms)"
        using f by (rule main_engine)
      with p u show "\<exists>s. engine (main E F argv) = Some s
                    \<and> s = override_spec F ms
                    \<and> precompiled_charsmap s = precompiled_charsmap ms
                    \<and> (FLAGS_use_internal_normalization F \<longrightarrow> s = ms)"
        by blast
    }
    {
      assume "saved (main E F argv) = Some (f, m)"
      from main_saved [OF this] f
      show "DecompileCharsMap E (precompiled_charsmap_get ms) = Inr m"
        by (auto simp: precompiled_charsmap_get_override)
    }
  }
  {
    assume "Load E (FLAGS_model F) = Inl err"
    with m have "final_spec E F = Inl (CheckFailed err)"
      by (simp add: final_spec_of_model)
    then show "main E F argv = run_init\<lparr>exit := Some (CheckFailed err)\<rparr>"
      by (rule main_final_spec_error)
  }
next
  assume a: "FLAGS_model F = '''' \<and> FLAGS_normalization_rule_tsv F \<noteq> ''''"
  then show "main E (F\<lparr>FLAGS_normalization_rule_name := n\<rparr>) argv = main E F argv"
    by (intro main_cong_flags) (simp_all add: final_spec_tsv_second)
  from a show "resolve_spec E F =
          (case PopulateNormalizerSpec E
                  (NormalizerSpec_default
                     \<lparr>normalization_rule_tsv := Some (FLAGS_normalization_rule_tsv F)\<rparr>) of
             Inl msg \<Rightarrow> Inl (CheckFailed msg)
           | Inr s \<Rightarrow> Inr s)"
    by (simp add: resolve_spec_def)
  assume l: "PopulateNormalizerSpec E
            (NormalizerSpec_default
               \<lparr>normalization_rule_tsv := Some (FLAGS_normalization_rule_tsv F)\<rparr>) = Inr ps"
  with a have f: "final_spec E F = Inr (override_spec F ps)"
    by (simp add: final_spec_of_tsv)
  {
    assume "\<not> FLAGS_decompile F"
    then show "engine (main E F argv) = Some (override_spec F ps)"
      using f by (rule main_engine)
  }
  {
    assume "saved (main E F argv) = Some (f, m)"
    from main_saved [OF this] f
    show "DecompileCharsMap E (precompiled_charsmap_get ps) = Inr m"
      by (auto simp: precompiled_charsmap_get_override)
  }
qed

theorem rule_source_precedence_witness:
  "FLAGS_model (normalize_flags_default
      \<lparr>FLAGS_model := ''m.model'', FLAGS_normalization_rule_tsv := ''rules.tsv'',
       FLAGS_normalization_rule_name := ''nfkc''\<rparr>) \<noteq> '''' \<and>
   Load sample_env (FLAGS_model (normalize_flags_default
      \<lparr>FLAGS_model := ''m.model'', FLAGS_normalization_rule_tsv := ''rules.tsv'',
       FLAGS_normalization_rule_name := ''nfkc''\<rparr>)) = Inr sample_model_spec \<and>
   \<not> FLAGS_decompile (normalize_flags_default
      \<lparr>FLAGS_model := ''m.model'', FLAGS_normalization_rule_tsv := ''rules.tsv'',
       FLAGS_normalization_rule_name := ''nfkc''\<rparr>) \<and>
   engine (main sample_env (normalize_flags_default
      \<lparr>FLAGS_model := ''m.model'', FLAGS_normalization_rule_tsv := ''rules.tsv'',
       FLAGS_normalization_rule_name := ''nfkc''\<rparr>) [''spm_normalize''])
     = Some \<lparr>name = Some ''nmt_nfkc'', precompiled_charsmap = Some ''BLOB'',
             add_dummy_prefix = Some False, remove_extra_whitespaces = Some True,
             escape_whitespaces = Some False, normalization_rule_tsv = None\<rparr> \<and>
   main sample_env
     (normalize_flags_default\<lparr>FLAGS_model := ''m.model'',
        FLAGS_normalization_rule_tsv := ''rules.tsv'',
        FLAGS_normalization_rule_name := ''nfkc''\<rparr>) [''spm_normalize'']
     = main sample_env (normalize_flags_default\<lparr>FLAGS_model := ''m.model''\<rparr>)
         [''spm_normalize''] \<and>
   FLAGS_model (normalize_flags_default
      \<lparr>FLAGS_normalization_rule_tsv := ''rules.tsv'',
       FLAGS_normalization_rule_name := ''nfkc''\<rparr>) = '''' \<and>
   FLAGS_normalization_rule_tsv (normalize_flags_default
      \<lparr>FLAGS_normalization_rule_tsv := ''rules.tsv'',
       FLAGS_normalization_rule_name := ''nfkc''\<rparr>) \<noteq> '''' \<and>
   engine (main sample_env (normalize_flags_default
      \<lparr>FLAGS_normalization_rule_tsv := ''rules.tsv'',
       FLAGS_normalization_rule_name := ''nfkc''\<rparr>) [''spm_normalize''])
     = Some \<lparr>name = None, precompiled_charsmap = Some ''COMPILED'',
             add_dummy_prefix = Some False, remove_extra_whitespaces = Some True,
             escape_whitespaces = Some False, normalization_rule_tsv = Some ''rules.tsv''\<rparr> \<and>
   main sample_env
     (normalize_flags_default\<lparr>FLAGS_normalization_rule_tsv := ''rules.tsv'',
        FLAGS_normalization_rule_name := ''nfkc''\<rparr>) [''spm_normalize'']
     = main sample_env
         (normalize_flags_default\<lparr>FLAGS_normalization_rule_tsv := ''rules.tsv''\<rparr>)
         [''spm_normalize'']"
proof -
  let ?F0 = "normalize_flags_default\<lparr>FLAGS_model := ''m.model''\<rparr>"
  let ?F1 = "normalize_flags_default
      \<lparr>FLAGS_model := ''m.model'', FLAGS_normalization_rule_tsv := ''rules.tsv'',
       FLAGS_normalization_rule_name := ''nfkc''\<rparr>"
  let ?G0 = "normalize_flags_default\<lparr>FLAGS_normalization_rule_tsv := ''rules.tsv''\<rparr>"
  let ?G1 = "normalize_flags_default
      \<lparr>FLAGS_normalization_rule_tsv := ''rules.tsv'',
       FLAGS_normalization_rule_name := ''nfkc''\<rparr>"
  let ?argv = "[''spm_normalize'']"
  let ?p = "NormalizerSpec_default
      \<lparr>normalization_rule_tsv := Some ''rules.tsv'', precompiled_charsmap := Some ''COMPILED''\<rparr>"
  have m0: "FLAGS_model ?F0 \<noteq> ''''" by simp
  have m1: "FLAGS_model ?F1 \<noteq> ''''" by simp
  have l1: "Load sample_env (FLAGS_model ?F1) = Inr sample_model_spec"
    by (simp add: sample_env_def)
  have d1: "\<not> FLAGS_decompile ?F1" by (simp add: normalize_flags_default_def)
  have g0: "FLAGS_model ?G0 = '''' \<and> FLAGS_normalization_rule_tsv ?G0 \<noteq> ''''"
    by (simp add: normalize_flags_default_def)
  have g1: "FLAGS_model ?G1 = '''' \<and> FLAGS_normalization_rule_tsv ?G1 \<noteq> ''''"
    by (simp add: normalize_flags_default_def)
  have l2: "PopulateNormalizerSpec sample_env
      (NormalizerSpec_default
         \<lparr>normalization_rule_tsv := Some (FLAGS_normalization_rule_tsv ?G1)\<rparr>) = Inr ?p"
    by (simp add: sample_env_def)
  have d2: "\<not> FLAGS_decompile ?G1" by (simp add: normalize_flags_default_def)
  from rule_source_precedence [where F = ?F1 and E = sample_env and argv = ?argv and ms = sample_model_spec]
    m1 l1 d1
  have e1: "engine (main sample_env ?F1 ?argv) = Some (override_spec ?F1 sample_model_spec)"
    by blast
  from rule_source_precedence [where F = ?F0 and E = sample_env and argv = ?argv
                          and t = "''rules.tsv''" and n = "''nfkc''"] m0
  have i1: "main sample_env
      (?F0\<lparr>FLAGS_normalization_rule_tsv := ''rules.tsv'',
           FLAGS_normalization_rule_name := ''nfkc''\<rparr>) ?argv = main sample_env ?F0 ?argv"
    by blast
  from rule_source_precedence [where F = ?G1 and E = sample_env and argv = ?argv and ps = ?p] g1 l2 d2
  have e2: "engine (main sample_env ?G1 ?argv) = Some (override_spec ?G1 ?p)"
    by blast
  from rule_source_precedence [where F = ?G0 and E = sample_env and argv = ?argv and n = "''nfkc''"] g0
  have i2: "main sample_env (?G0\<lparr>FLAGS_normalization_rule_name := ''nfkc''\<rparr>) ?argv
              = main sample_env ?G0 ?argv"
    by blast
  have o1: "override_spec ?F1 sample_model_spec
      = \<lparr>name = Some ''nmt_nfkc'', precompiled_charsmap = Some ''BLOB'',
             add_dummy_prefix = Some False, remove_extra_whitespaces = Some True,
             escape_whitespaces = Some False, normalization_rule_tsv = None\<rparr>"
    by (simp add: override_spec_def normalize_flags_default_def sample_model_spec_def)
  have o2: "override_spec ?G1 ?p
      = \<lparr>name = None, precompiled_charsmap = Some ''COMPILED'',
             add_dummy_prefix = Some False, remove_extra_whitespaces = Some True,
             escape_whitespaces = Some False, normalization_rule_tsv = Some ''rules.tsv''\<rparr>"
    by (simp add: override_spec_def normalize_flags_default_def NormalizerSpec_default_def)
  from m1 l1 d1 g1 e1 e2 i1 i2 show ?thesis
    unfolding o1 o2 by simp
qed

text \<open>
  Claim C5. With \<^verbatim>\<open>--use_internal_normalization\<close> and a model that loads, the spec
  that reaches line 88 is the spec embedded in the model, field for field, and outside
  decompile mode it is the spec the normalizer is constructed from.
\<close>

theorem as_trained_spec_unchanged:
  assumes "FLAGS_use_internal_normalization F"
    and "FLAGS_model F \<noteq> ''''"
    and "Load E (FLAGS_model F) = Inr ms"
  shows "final_spec E F = Inr ms
       \<and> (\<not> FLAGS_decompile F \<longrightarrow> engine (main E F argv) = Some ms)"
  using assms
  by (auto simp: main_def final_spec_def resolve_spec_def override_spec_def run_init_def
           normalize_files_engine
           split: option.splits)

theorem as_trained_spec_unchanged_witness:
  "FLAGS_use_internal_normalization
     (normalize_flags_default\<lparr>FLAGS_model := ''m.model'',
        FLAGS_use_internal_normalization := True\<rparr>) \<and>
   FLAGS_model
     (normalize_flags_default\<lparr>FLAGS_model := ''m.model'',
        FLAGS_use_internal_normalization := True\<rparr>) \<noteq> '''' \<and>
   Load sample_env (FLAGS_model
     (normalize_flags_default\<lparr>FLAGS_model := ''m.model'',
        FLAGS_use_internal_normalization := True\<rparr>)) = Inr sample_model_spec \<and>
   \<not> FLAGS_decompile
     (normalize_flags_default\<lparr>FLAGS_model := ''m.model'',
        FLAGS_use_internal_normalization := True\<rparr>) \<and>
   final_spec sample_env
     (normalize_flags_default\<lparr>FLAGS_model := ''m.model'',
        FLAGS_use_internal_normalization := True\<rparr>) = Inr sample_model_spec \<and>
   engine (main sample_env
     (normalize_flags_default\<lparr>FLAGS_model := ''m.model'',
        FLAGS_use_internal_normalization := True\<rparr>) [''spm_normalize''])
     = Some sample_model_spec"
proof -
  let ?F = "normalize_flags_default\<lparr>FLAGS_model := ''m.model'',
        FLAGS_use_internal_normalization := True\<rparr>"
  have h1: "FLAGS_use_internal_normalization ?F" by simp
  have h2: "FLAGS_model ?F \<noteq> ''''" by simp
  have h3: "Load sample_env (FLAGS_model ?F) = Inr sample_model_spec"
    by (simp add: sample_env_def)
  have h4: "\<not> FLAGS_decompile ?F" by (simp add: normalize_flags_default_def)
  from as_trained_spec_unchanged [OF h1 h2 h3, of "[''spm_normalize'']"] h1 h2 h3 h4
  show ?thesis by simp
qed

subsection \<open>Decompiling\<close>

text \<open>
  Claim C6. With \<^verbatim>\<open>--decompile\<close> no normalizer is constructed, no input stream is
  opened, no line is read and none is written. When the spec is resolved, its compiled
  map decompiles and the table saves, the run returns 0 having saved that table under
  \<^verbatim>\<open>--output\<close>; and whatever a run saves is the decompilation of the compiled map of the
  resolved spec, saved under \<^verbatim>\<open>--output\<close>.
\<close>

theorem decompile_saves_table_only:
  assumes "FLAGS_decompile F"
  shows "(engine (main E F argv) = None \<and> opened (main E F argv) = []
          \<and> lines_read (main E F argv) = [] \<and> written (main E F argv) = [])
       \<and> (final_spec E F = Inr s \<and> DecompileCharsMap E (precompiled_charsmap_get s) = Inr m
            \<and> SaveCharsMap E (FLAGS_output F) m = None
          \<longrightarrow> saved (main E F argv) = Some (FLAGS_output F, m) \<and> exit (main E F argv) = None)
       \<and> (saved (main E F argv) = Some (f', m')
          \<longrightarrow> f' = FLAGS_output F
              \<and> (\<exists>s'. final_spec E F = Inr s'
                      \<and> DecompileCharsMap E (precompiled_charsmap_get s') = Inr m'))"
  using assms
  by (auto simp: main_def run_init_def split: sum.splits option.splits)

theorem decompile_saves_table_only_witness:
  "FLAGS_decompile
     (normalize_flags_default\<lparr>FLAGS_model := ''m.model'', FLAGS_decompile := True,
        FLAGS_output := ''out.tsv''\<rparr>) \<and>
   main sample_env
     (normalize_flags_default\<lparr>FLAGS_model := ''m.model'', FLAGS_decompile := True,
        FLAGS_output := ''out.tsv''\<rparr>) [''spm_normalize'', ''in.txt'']
     = \<lparr>engine = None, saved = Some (''out.tsv'', [([65], [97])]), opened = [],
        lines_read = [], written = [], exit = None\<rparr>"
proof -
  let ?F = "normalize_flags_default\<lparr>FLAGS_model := ''m.model'', FLAGS_decompile := True,
        FLAGS_output := ''out.tsv''\<rparr>"
  let ?s = "sample_model_spec\<lparr>add_dummy_prefix := Some False, escape_whitespaces := Some False,
        remove_extra_whitespaces := Some True\<rparr>"
  have h1: "FLAGS_decompile ?F" by simp
  have h2: "final_spec sample_env ?F = Inr ?s"
    by (simp add: final_spec_def resolve_spec_def override_spec_def sample_env_def
        normalize_flags_default_def)
  have h3: "DecompileCharsMap sample_env (precompiled_charsmap_get ?s) = Inr [([65], [97])]"
    by (simp add: sample_env_def sample_model_spec_def precompiled_charsmap_get_def)
  have h4: "SaveCharsMap sample_env (FLAGS_output ?F) [([65], [97])] = None"
    by (simp add: sample_env_def)
  from decompile_saves_table_only
         [OF h1, of sample_env "[''spm_normalize'', ''in.txt'']" ?s "[([65], [97])]"]
    h2 h3 h4
  have "engine (main sample_env ?F [''spm_normalize'', ''in.txt'']) = None"
    "opened (main sample_env ?F [''spm_normalize'', ''in.txt'']) = []"
    "lines_read (main sample_env ?F [''spm_normalize'', ''in.txt'']) = []"
    "written (main sample_env ?F [''spm_normalize'', ''in.txt'']) = []"
    "saved (main sample_env ?F [''spm_normalize'', ''in.txt''])
       = Some (FLAGS_output ?F, [([65], [97])])"
    "exit (main sample_env ?F [''spm_normalize'', ''in.txt'']) = None"
    by blast+
  then have "main sample_env ?F [''spm_normalize'', ''in.txt'']
     = \<lparr>engine = None, saved = Some (''out.tsv'', [([65], [97])]), opened = [],
        lines_read = [], written = [], exit = None\<rparr>"
    by (cases "main sample_env ?F [''spm_normalize'', ''in.txt'']") simp
  with h1 show ?thesis by simp
qed

subsection \<open>Normalizing line by line\<close>

text \<open>
  Claim C7. Outside decompile mode, with the spec resolved to \<open>s\<close>, the lines written
  are the lines read, each normalized with \<open>s\<close>, in the order read; the lines read are
  those of the streams opened, in the order opened; the streams opened are an initial
  segment of the input names; and when the output opens and every input opens, all the
  input names are opened and the run returns 0. What \<^verbatim>\<open>WriteLine\<close> returns is not
  looked at by the driver, so \<open>written\<close> is what was handed to the output stream.
\<close>

theorem one_output_line_per_input_line:
  assumes "\<not> FLAGS_decompile F" and "final_spec E F = Inr s"
  shows "written (main E F argv) = map (Normalize E s) (lines_read (main E F argv))
       \<and> lines_read (main E F argv) = concat (map (file_lines E) (opened (main E F argv)))
       \<and> (\<exists>k. opened (main E F argv) = take k (input_files (rest_args_of F argv)))
       \<and> (NewWritableFile E (FLAGS_output F) = None
            \<and> (\<forall>f \<in> set (input_files (rest_args_of F argv)). readable E f)
          \<longrightarrow> opened (main E F argv) = input_files (rest_args_of F argv)
              \<and> exit (main E F argv) = None)"
proof (cases "NewWritableFile E (FLAGS_output F)")
  case (Some msg)
  with assms have "main E F argv = run_init\<lparr>engine := Some s, exit := Some (CheckFailed msg)\<rparr>"
    by (simp add: main_def)
  then show ?thesis using Some by (simp add: run_init_def)
next
  case None
  let ?fs = "input_files (rest_args_of F argv)"
  let ?r0 = "run_init\<lparr>engine := Some s\<rparr>"
  have m: "main E F argv = normalize_files E s ?fs ?r0"
    using assms None by (rule main_normalizing)
  have w: "written (normalize_files E s ?fs ?r0)
             = map (Normalize E s) (lines_read (normalize_files E s ?fs ?r0))"
    by (rule normalize_files_written) (simp add: run_init_def)
  have l: "lines_read (normalize_files E s ?fs ?r0)
             = concat (map (file_lines E) (opened (normalize_files E s ?fs ?r0)))"
    by (rule normalize_files_lines_read) (simp add: run_init_def)
  have p: "\<exists>k. opened (normalize_files E s ?fs ?r0) = take k ?fs"
    using main_opened_prefix [of E F argv] unfolding m .
  have a: "opened (normalize_files E s ?fs ?r0) = ?fs \<and> exit (normalize_files E s ?fs ?r0) = None"
    if "\<forall>f \<in> set ?fs. readable E f"
    using normalize_files_all_readable [OF that, of s ?r0] by (simp add: run_init_def)
  from w l p a show ?thesis unfolding m by blast
qed

theorem one_output_line_per_input_line_witness:
  "\<not> FLAGS_decompile (normalize_flags_default\<lparr>FLAGS_normalization_rule_name := ''nfkc''\<rparr>) \<and>
   final_spec sample_env (normalize_flags_default\<lparr>FLAGS_normalization_rule_name := ''nfkc''\<rparr>)
     = Inr \<lparr>name = Some ''nfkc'', precompiled_charsmap = Some ''COMPILED'',
           add_dummy_prefix = Some False, remove_extra_whitespaces = Some True,
           escape_whitespaces = Some False, normalization_rule_tsv = None\<rparr> \<and>
   lines_read (main sample_env
       (normalize_flags_default\<lparr>FLAGS_normalization_rule_name := ''nfkc''\<rparr>)
       [''spm_normalize'', ''in.txt'', '''']) = [''x y'', ''a b'', ''c''] \<and>
   written (main sample_env
       (normalize_flags_default\<lparr>FLAGS_normalization_rule_name := ''nfkc''\<rparr>)
       [''spm_normalize'', ''in.txt'', '''']) = [''xy'', ''ab'', ''c'']"
proof -
  let ?F = "normalize_flags_default\<lparr>FLAGS_normalization_rule_name := ''nfkc''\<rparr>"
  let ?s = "\<lparr>name = Some ''nfkc'', precompiled_charsmap = Some ''COMPILED'',
           add_dummy_prefix = Some False, remove_extra_whitespaces = Some True,
           escape_whitespaces = Some False, normalization_rule_tsv = None\<rparr>"
  let ?argv = "[''spm_normalize'', ''in.txt'', '''']"
  have h1: "\<not> FLAGS_decompile ?F" by (simp add: normalize_flags_default_def)
  have h2: "final_spec sample_env ?F = Inr ?s"
    by (simp add: final_spec_def resolve_spec_def override_spec_def sample_env_def
        normalize_flags_default_def NormalizerSpec_default_def)
  have fs: "input_files (rest_args_of ?F ?argv) = [''in.txt'', '''']"
    by (simp add: input_files_def rest_args_of_def normalize_flags_default_def)
  have h3: "NewWritableFile sample_env (FLAGS_output ?F) = None
            \<and> (\<forall>f \<in> set (input_files (rest_args_of ?F ?argv)). readable sample_env f)"
    unfolding fs by (simp add: sample_env_def readable_def)
  from one_output_line_per_input_line [OF h1 h2, of ?argv] h3
  have "written (main sample_env ?F ?argv)
          = map (Normalize sample_env ?s) (lines_read (main sample_env ?F ?argv))"
    and "lines_read (main sample_env ?F ?argv)
          = concat (map (file_lines sample_env) (opened (main sample_env ?F ?argv)))"
    and "opened (main sample_env ?F ?argv) = input_files (rest_args_of ?F ?argv)"
    by blast+
  then have "lines_read (main sample_env ?F ?argv) = [''x y'', ''a b'', ''c'']"
    and "written (main sample_env ?F ?argv) = [''xy'', ''ab'', ''c'']"
    unfolding fs by (simp_all add: file_lines_def sample_env_def)
  with h1 h2 show ?thesis by simp
qed

subsection \<open>Which streams are read\<close>

text \<open>
  Claim C8. When \<^verbatim>\<open>--input\<close> is not empty the list of input names is that one name,
  the run does not depend on the positional arguments, no other stream is ever opened,
  and once the output is open exactly that stream is opened, the lines read are the lines
  of that stream, and the lines written are those lines normalized. When \<^verbatim>\<open>--input\<close>
  is empty the list of input names is the positional arguments: the streams opened are an
  initial segment of them (or of the one empty name when there are none), the lines read
  are the lines of the streams opened, and when all of them open all of them are read.
\<close>

theorem input_flag_overrides_positional:
  "(FLAGS_input F \<noteq> '''' \<longrightarrow>
      rest_args_of F argv = [FLAGS_input F]
      \<and> main E F argv = main E F argv'
      \<and> set (opened (main E F argv)) \<subseteq> {FLAGS_input F}
      \<and> lines_read (main E F argv) = concat (map (file_lines E) (opened (main E F argv)))
      \<and> (\<not> FLAGS_decompile F \<and> final_spec E F = Inr s
           \<and> NewWritableFile E (FLAGS_output F) = None
         \<longrightarrow> opened (main E F argv) = [FLAGS_input F]
             \<and> lines_read (main E F argv) = file_lines E (FLAGS_input F)
             \<and> written (main E F argv)
                 = map (Normalize E s) (file_lines E (FLAGS_input F))))
   \<and> (FLAGS_input F = '''' \<longrightarrow>
      rest_args_of F argv = drop 1 argv
      \<and> (\<exists>k. opened (main E F argv) = take k (input_files (drop 1 argv)))
      \<and> lines_read (main E F argv) = concat (map (file_lines E) (opened (main E F argv)))
      \<and> (\<not> FLAGS_decompile F \<and> final_spec E F = Inr s
           \<and> NewWritableFile E (FLAGS_output F) = None
           \<and> (\<forall>f \<in> set (input_files (drop 1 argv)). readable E f)
         \<longrightarrow> opened (main E F argv) = input_files (drop 1 argv)
             \<and> lines_read (main E F argv)
                 = concat (map (file_lines E) (input_files (drop 1 argv)))
             \<and> written (main E F argv)
                 = map (Normalize E s)
                     (concat (map (file_lines E) (input_files (drop 1 argv))))))"
proof (intro conjI impI)
  assume i: "FLAGS_input F \<noteq> ''''"
  then show ra: "rest_args_of F argv = [FLAGS_input F]"
    by (simp add: rest_args_of_def)
  from i show "main E F argv = main E F argv'" by (rule main_argv_irrelevant)
  show lr: "lines_read (main E F argv) = concat (map (file_lines E) (opened (main E F argv)))"
    by (rule main_lines_read)
  have n: "opened (main E F argv) = [FLAGS_input F]"
    if "\<not> FLAGS_decompile F" "final_spec E F = Inr s'"
      "NewWritableFile E (FLAGS_output F) = None" for s'
  proof -
    from main_normalizing [OF that, of argv] ra
    have "main E F argv =
            normalize_files E s' [FLAGS_input F] (run_init\<lparr>engine := Some s'\<rparr>)"
      by (simp add: input_files_def del: normalize_files.simps)
    then have "opened (main E F argv) = opened (run_init\<lparr>engine := Some s'\<rparr>) @ [FLAGS_input F]"
      by (simp only: normalize_files_single_opened)
    then show ?thesis by (simp add: run_init_def)
  qed
  from main_opened_cases [of E F argv] n
  show "set (opened (main E F argv)) \<subseteq> {FLAGS_input F}" by auto
  assume a: "\<not> FLAGS_decompile F \<and> final_spec E F = Inr s
           \<and> NewWritableFile E (FLAGS_output F) = None"
  with n show o: "opened (main E F argv) = [FLAGS_input F]" by blast
  from lr o show l: "lines_read (main E F argv) = file_lines E (FLAGS_input F)" by simp
  from a main_written [of F E s argv] l
  show "written (main E F argv) = map (Normalize E s) (file_lines E (FLAGS_input F))"
    by simp
next
  assume e: "FLAGS_input F = ''''"
  then show ra: "rest_args_of F argv = drop 1 argv"
    by (simp add: rest_args_of_def)
  from main_opened_prefix [of E F argv] ra
  show "\<exists>k. opened (main E F argv) = take k (input_files (drop 1 argv))" by simp
  show lr: "lines_read (main E F argv) = concat (map (file_lines E) (opened (main E F argv)))"
    by (rule main_lines_read)
  assume a: "\<not> FLAGS_decompile F \<and> final_spec E F = Inr s
           \<and> NewWritableFile E (FLAGS_output F) = None
           \<and> (\<forall>f \<in> set (input_files (drop 1 argv)). readable E f)"
  with ra main_all_readable [of F E s argv]
  show o: "opened (main E F argv) = input_files (drop 1 argv)" by simp
  from lr o show l: "lines_read (main E F argv)
                 = concat (map (file_lines E) (input_files (drop 1 argv)))"
    by simp
  from a main_written [of F E s argv] l
  show "written (main E F argv)
          = map (Normalize E s) (concat (map (file_lines E) (input_files (drop 1 argv))))"
    by simp
qed

theorem input_flag_overrides_positional_witness:
  "FLAGS_input (normalize_flags_default\<lparr>FLAGS_normalization_rule_name := ''nfkc'',
       FLAGS_input := ''in.txt''\<rparr>) \<noteq> '''' \<and>
   main sample_env
     (normalize_flags_default\<lparr>FLAGS_normalization_rule_name := ''nfkc'',
        FLAGS_input := ''in.txt''\<rparr>) [''spm_normalize'', '''']
     = main sample_env
         (normalize_flags_default\<lparr>FLAGS_normalization_rule_name := ''nfkc'',
            FLAGS_input := ''in.txt''\<rparr>) [''spm_normalize''] \<and>
   opened (main sample_env
     (normalize_flags_default\<lparr>FLAGS_normalization_rule_name := ''nfkc'',
        FLAGS_input := ''in.txt''\<rparr>) [''spm_normalize'', '''']) = [''in.txt''] \<and>
   lines_read (main sample_env
     (normalize_flags_default\<lparr>FLAGS_normalization_rule_name := ''nfkc'',
        FLAGS_input := ''in.txt''\<rparr>) [''spm_normalize'', '''']) = [''x y''] \<and>
   written (main sample_env
     (normalize_flags_default\<lparr>FLAGS_normalization_rule_name := ''nfkc'',
        FLAGS_input := ''in.txt''\<rparr>) [''spm_normalize'', '''']) = [''xy''] \<and>
   FLAGS_input (normalize_flags_default\<lparr>FLAGS_normalization_rule_name := ''nfkc''\<rparr>)
     = '''' \<and>
   opened (main sample_env
     (normalize_flags_default\<lparr>FLAGS_normalization_rule_name := ''nfkc''\<rparr>)
     [''spm_normalize'', '''', ''in.txt'']) = ['''', ''in.txt''] \<and>
   lines_read (main sample_env
     (normalize_flags_default\<lparr>FLAGS_normalization_rule_name := ''nfkc''\<rparr>)
     [''spm_normalize'', '''', ''in.txt'']) = [''a b'', ''c'', ''x y'']"
proof -
  let ?F1 = "normalize_flags_default\<lparr>FLAGS_normalization_rule_name := ''nfkc'',
        FLAGS_input := ''in.txt''\<rparr>"
  let ?F2 = "normalize_flags_default\<lparr>FLAGS_normalization_rule_name := ''nfkc''\<rparr>"
  let ?s = "\<lparr>name = Some ''nfkc'', precompiled_charsmap = Some ''COMPILED'',
           add_dummy_prefix = Some False, remove_extra_whitespaces = Some True,
           escape_whitespaces = Some False, normalization_rule_tsv = None\<rparr>"
  let ?a1 = "[''spm_normalize'', '''']"
  let ?a2 = "[''spm_normalize'', '''', ''in.txt'']"
  have h1: "FLAGS_input ?F1 \<noteq> ''''" by simp
  have h2: "\<not> FLAGS_decompile ?F1 \<and> final_spec sample_env ?F1 = Inr ?s
            \<and> NewWritableFile sample_env (FLAGS_output ?F1) = None"
    by (simp add: final_spec_def resolve_spec_def override_spec_def sample_env_def
        normalize_flags_default_def NormalizerSpec_default_def)
  have h3: "FLAGS_input ?F2 = ''''" by (simp add: normalize_flags_default_def)
  have fs: "input_files (drop 1 ?a2) = ['''', ''in.txt'']"
    by (simp add: input_files_def)
  have h4: "\<not> FLAGS_decompile ?F2 \<and> final_spec sample_env ?F2 = Inr ?s
            \<and> NewWritableFile sample_env (FLAGS_output ?F2) = None
            \<and> (\<forall>f \<in> set (input_files (drop 1 ?a2)). readable sample_env f)"
    unfolding fs
    by (simp add: final_spec_def resolve_spec_def override_spec_def sample_env_def
        normalize_flags_default_def NormalizerSpec_default_def readable_def)
  from h1 h2
    input_flag_overrides_positional [where F = ?F1 and E = sample_env and argv = ?a1
              and argv' = "[''spm_normalize'']" and s = ?s]
  have a: "main sample_env ?F1 ?a1 = main sample_env ?F1 [''spm_normalize'']"
    and b: "opened (main sample_env ?F1 ?a1) = [FLAGS_input ?F1]"
    and c: "lines_read (main sample_env ?F1 ?a1) = file_lines sample_env (FLAGS_input ?F1)"
    and d: "written (main sample_env ?F1 ?a1)
              = map (Normalize sample_env ?s) (file_lines sample_env (FLAGS_input ?F1))"
    by blast+
  from h3 h4 input_flag_overrides_positional [where F = ?F2 and E = sample_env and argv = ?a2 and s = ?s]
  have e: "opened (main sample_env ?F2 ?a2) = input_files (drop 1 ?a2)"
    and f: "lines_read (main sample_env ?F2 ?a2)
              = concat (map (file_lines sample_env) (input_files (drop 1 ?a2)))"
    by blast+
  from a b c d e f h1 h3 show ?thesis
    unfolding fs by (simp add: file_lines_def sample_env_def)
qed

text \<open>
  Claim C9. Outside decompile mode, once the spec is resolved and the output is open, at
  least one stream is opened for reading; and when \<^verbatim>\<open>--input\<close> is empty and there is
  no positional argument, the list of input names is the one empty name (the name of the
  standard input), that stream is the one opened, and the lines read are its lines.
\<close>

theorem stdin_when_no_input_named:
  assumes "\<not> FLAGS_decompile F" and "final_spec E F = Inr s"
    and "NewWritableFile E (FLAGS_output F) = None"
  shows "opened (main E F argv) \<noteq> []
       \<and> (FLAGS_input F = '''' \<and> drop 1 argv = []
          \<longrightarrow> input_files (rest_args_of F argv) = ['''']
              \<and> opened (main E F argv) = ['''']
              \<and> lines_read (main E F argv) = file_lines E '''')"
proof (intro conjI impI)
  show "opened (main E F argv) \<noteq> []" using assms by (rule main_opened_nonempty)
  assume e: "FLAGS_input F = '''' \<and> drop 1 argv = []"
  then show fs: "input_files (rest_args_of F argv) = ['''']"
    by (simp add: input_files_def rest_args_of_def)
  have m: "main E F argv = normalize_files E s [''''] (run_init\<lparr>engine := Some s\<rparr>)"
    unfolding main_normalizing [OF assms] fs ..
  then have "opened (main E F argv) = opened (run_init\<lparr>engine := Some s\<rparr>) @ ['''']"
    by (simp only: normalize_files_single_opened)
  then show "opened (main E F argv) = ['''']" by (simp add: run_init_def)
  from m show "lines_read (main E F argv) = file_lines E ''''"
    by (simp add: file_lines_def normalize_lines_eq run_init_def split: sum.splits)
qed

theorem stdin_when_no_input_named_witness:
  "\<not> FLAGS_decompile (normalize_flags_default\<lparr>FLAGS_model := ''m.model''\<rparr>) \<and>
   final_spec sample_env (normalize_flags_default\<lparr>FLAGS_model := ''m.model''\<rparr>)
     = Inr (sample_model_spec\<lparr>add_dummy_prefix := Some False,
              escape_whitespaces := Some False\<rparr>) \<and>
   NewWritableFile sample_env
     (FLAGS_output (normalize_flags_default\<lparr>FLAGS_model := ''m.model''\<rparr>)) = None \<and>
   FLAGS_input (normalize_flags_default\<lparr>FLAGS_model := ''m.model''\<rparr>) = '''' \<and>
   drop 1 [''spm_normalize''] = ([] :: string list) \<and>
   opened (main sample_env (normalize_flags_default\<lparr>FLAGS_model := ''m.model''\<rparr>)
     [''spm_normalize'']) = [''''] \<and>
   lines_read (main sample_env (normalize_flags_default\<lparr>FLAGS_model := ''m.model''\<rparr>)
     [''spm_normalize'']) = [''a b'', ''c'']"
proof -
  let ?F = "normalize_flags_default\<lparr>FLAGS_model := ''m.model''\<rparr>"
  let ?s = "sample_model_spec\<lparr>add_dummy_prefix := Some False,
              escape_whitespaces := Some False\<rparr>"
  have h1: "\<not> FLAGS_decompile ?F" by (simp add: normalize_flags_default_def)
  have h2: "final_spec sample_env ?F = Inr ?s"
    by (simp add: final_spec_def resolve_spec_def override_spec_def sample_env_def
        normalize_flags_default_def sample_model_spec_def)
  have h3: "NewWritableFile sample_env (FLAGS_output ?F) = None"
    by (simp add: sample_env_def)
  have h4: "FLAGS_input ?F = '''' \<and> drop 1 [''spm_normalize''] = ([] :: string list)"
    by (simp add: normalize_flags_default_def)
  from stdin_when_no_input_named [OF h1 h2 h3, of "[''spm_normalize'']"] h4
  have "opened (main sample_env ?F [''spm_normalize'']) = ['''']"
    and "lines_read (main sample_env ?F [''spm_normalize'']) = file_lines sample_env ''''"
    by blast+
  with h1 h2 h3 h4 show ?thesis by (simp add: file_lines_def sample_env_def)
qed

section \<open>Properties of the training driver\<close>

text \<open>
  Claim C10. Whenever \<^verbatim>\<open>Train\<close> is called, its third argument, the denormalizer spec,
  is as follows: with a denormalization rule TSV named, \<^verbatim>\<open>add_dummy_prefix\<close>,
  \<^verbatim>\<open>remove_extra_whitespaces\<close> and \<^verbatim>\<open>escape_whitespaces\<close> are set to false (and the
  TSV is recorded); with none named, it is the default-constructed message, no field set.
\<close>

theorem denormalizer_spec_flags:
  assumes "train_args (main_train E F) = Some (t, n, d)"
  shows "(FLAGS_denormalization_rule_tsv F \<noteq> '''' \<longrightarrow>
            add_dummy_prefix d = Some False
          \<and> remove_extra_whitespaces d = Some False
          \<and> escape_whitespaces d = Some False
          \<and> normalization_rule_tsv d = Some (FLAGS_denormalization_rule_tsv F))
       \<and> (FLAGS_denormalization_rule_tsv F = '''' \<longrightarrow> d = NormalizerSpec_default)"
proof -
  from assms have "d = denormalizer_spec_of F"
    by (auto simp: main_train_def train_run_init_def Let_def
             split: if_splits sum.splits option.splits)
  then show ?thesis
    by (simp add: denormalizer_spec_of_def NormalizerSpec_default_def)
qed

theorem denormalizer_spec_flags_witness:
  "train_args (main_train sample_train_env
      (sample_train_flags\<lparr>FLAGS_denormalization_rule_tsv := ''denorm.tsv''\<rparr>))
     = Some (TrainerSpec_default\<lparr>input := [''corpus.txt''], copied := Some (),
               required_chars := Some ''''\<rparr>,
             \<lparr>name = Some ''nmt_nfkc'', precompiled_charsmap = None,
              add_dummy_prefix = Some True, remove_extra_whitespaces = Some True,
              escape_whitespaces = None, normalization_rule_tsv = Some ''''\<rparr>,
             \<lparr>name = None, precompiled_charsmap = None,
              add_dummy_prefix = Some False, remove_extra_whitespaces = Some False,
              escape_whitespaces = Some False,
              normalization_rule_tsv = Some ''denorm.tsv''\<rparr>) \<and>
   FLAGS_denormalization_rule_tsv sample_train_flags = '''' \<and>
   train_args (main_train sample_train_env sample_train_flags)
     = Some (TrainerSpec_default\<lparr>input := [''corpus.txt''], copied := Some (),
               required_chars := Some ''''\<rparr>,
             \<lparr>name = Some ''nmt_nfkc'', precompiled_charsmap = None,
              add_dummy_prefix = Some True, remove_extra_whitespaces = Some True,
              escape_whitespaces = None, normalization_rule_tsv = Some ''''\<rparr>,
             NormalizerSpec_default)"
proof -
  let ?F1 = "sample_train_flags\<lparr>FLAGS_denormalization_rule_tsv := ''denorm.tsv''\<rparr>"
  let ?t = "TrainerSpec_default\<lparr>input := [''corpus.txt''], copied := Some (),
               required_chars := Some ''''\<rparr> :: unit TrainerSpec"
  let ?n = "\<lparr>name = Some ''nmt_nfkc'', precompiled_charsmap = None,
              add_dummy_prefix = Some True, remove_extra_whitespaces = Some True,
              escape_whitespaces = None, normalization_rule_tsv = Some ''''\<rparr>"
  have t1: "trainer_spec_of sample_train_env ?F1 = Inr ?t"
    by (simp add: trainer_spec_of_def sample_train_env_def sample_train_flags_def
        SetRepeatedTrainerSpecFromFlag_def SetRepeatedTrainerSpecFromFile_def
        TrainerSpec_default_def)
  have t2: "trainer_spec_of sample_train_env sample_train_flags = Inr ?t"
    by (simp add: trainer_spec_of_def sample_train_env_def sample_train_flags_def
        SetRepeatedTrainerSpecFromFlag_def SetRepeatedTrainerSpecFromFile_def
        TrainerSpec_default_def)
  have h1: "train_args (main_train sample_train_env ?F1)
              = Some (?t, ?n, denormalizer_spec_of ?F1)"
    by (simp add: main_train_def t1 Let_def)
       (simp add: sample_train_env_def sample_train_flags_def train_run_init_def
          normalizer_spec_of_def NormalizerSpec_default_def)
  have h2: "train_args (main_train sample_train_env sample_train_flags)
              = Some (?t, ?n, denormalizer_spec_of sample_train_flags)"
    by (simp add: main_train_def t2 Let_def)
       (simp add: sample_train_env_def sample_train_flags_def train_run_init_def
          normalizer_spec_of_def NormalizerSpec_default_def)
  have h3: "FLAGS_denormalization_rule_tsv ?F1 \<noteq> ''''" by simp
  have h4: "FLAGS_denormalization_rule_tsv sample_train_flags = ''''"
    by (simp add: sample_train_flags_def)
  from denormalizer_spec_flags [OF h1] h3
  have a: "add_dummy_prefix (denormalizer_spec_of ?F1) = Some False"
    "remove_extra_whitespaces (denormalizer_spec_of ?F1) = Some False"
    "escape_whitespaces (denormalizer_spec_of ?F1) = Some False"
    "normalization_rule_tsv (denormalizer_spec_of ?F1) = Some ''denorm.tsv''"
    by simp_all
  have a': "name (denormalizer_spec_of ?F1) = None"
    "precompiled_charsmap (denormalizer_spec_of ?F1) = None"
    by (simp_all add: denormalizer_spec_of_def NormalizerSpec_default_def)
  from a a' have d1: "denormalizer_spec_of ?F1 =
      \<lparr>name = None, precompiled_charsmap = None,
              add_dummy_prefix = Some False, remove_extra_whitespaces = Some False,
              escape_whitespaces = Some False,
              normalization_rule_tsv = Some ''denorm.tsv''\<rparr>"
    by (cases "denormalizer_spec_of ?F1") simp
  from denormalizer_spec_flags [OF h2] h4
  have d2: "denormalizer_spec_of sample_train_flags = NormalizerSpec_default"
    by simp
  from h1 h2 h4 d1 d2 show ?thesis by simp
qed

end
